theory Spec2Isabelle
  imports Complex_Main
begin

section \<open>JavaScript values\<close>

text \<open>
  A JavaScript string is a sequence of UTF-16 code units; the regular expressions of the
  extractor (none has the \<open>u\<close> flag) and \<open>length\<close>, \<open>slice\<close> and \<open>includes\<close> work on
  code units. Text is therefore a list of code units, each a natural number. Table and
  column names and object keys, which the program writes as ASCII identifiers, stay HOL
  strings.
\<close>

type_synonym jstr = "nat list"

definition of_ascii :: "string \<Rightarrow> jstr" where
  "of_ascii s = map of_char s"

text \<open>
  The values the state layer handles. A number is an integer, \<open>NaN\<close>, \<open>Infinity\<close>
  (\<open>PosInf\<close>) or \<open>-Infinity\<close> (\<open>NegInf\<close>); a number with a fractional part is not a
  value of the model, and an integer is taken as it is written, also where a double would
  round it (beyond \<open>2 ^ 53\<close>). \<open>Json j\<close> is the string \<open>JSON.stringify(j)\<close>: the
  text of a JSON document is represented by the document it denotes, so that
  \<open>JSON.parse\<close> of it is \<open>j\<close> again. A string held by a column that the program parses
  is a \<open>Json\<close> value when it is JSON text and a \<open>Str\<close> value otherwise, on which
  \<open>JSON.parse\<close> throws. A missing property (\<open>undefined\<close>) is the \<open>None\<close> of a lookup.
\<close>

datatype js =
    Null | Num int | NaN | PosInf | NegInf
  | Str jstr | Json js | Arr "js list" | Obj "(string \<times> js) list"

type_synonym row = "(string \<times> js) list"

definition get_prop :: "row \<Rightarrow> string \<Rightarrow> js option" where
  "get_prop r k = map_of r k"

text \<open>Assignment to a property: an existing key keeps its place, a new key goes last.\<close>

fun put :: "string \<Rightarrow> js \<Rightarrow> row \<Rightarrow> row" where
  "put k v [] = [(k, v)]"
| "put k v ((k', v') # r) = (if k = k' then (k, v) # r else (k', v') # put k v r)"

text \<open>Truthiness, as \<open>||\<close>, \<open>!\<close> and \<open>if\<close> read a value.\<close>

fun truthy :: "js \<Rightarrow> bool" where
  "truthy Null = False"
| "truthy (Num n) = (n \<noteq> 0)"
| "truthy NaN = False"
| "truthy PosInf = True"
| "truthy NegInf = True"
| "truthy (Str s) = (s \<noteq> [])"
| "truthy (Json j) = True"
| "truthy (Arr xs) = True"
| "truthy (Obj kvs) = True"

definition truthy_opt :: "js option \<Rightarrow> bool" where
  "truthy_opt v = (case v of None \<Rightarrow> False | Some x \<Rightarrow> truthy x)"

text \<open>
  What \<open>JSON.stringify\<close> writes and \<open>JSON.parse\<close> reads back: a number that is not
  finite is written as \<open>null\<close>, at any depth; a string stays what it is, also when it is
  itself the text of a JSON document.
\<close>

primrec jsonify :: "js \<Rightarrow> js" where
  "jsonify Null = Null"
| "jsonify (Num n) = Num n"
| "jsonify NaN = Null"
| "jsonify PosInf = Null"
| "jsonify NegInf = Null"
| "jsonify (Str s) = Str s"
| "jsonify (Json j) = Json j"
| "jsonify (Arr xs) = Arr (map jsonify xs)"
| "jsonify (Obj kvs) = Obj (map (map_prod id jsonify) kvs)"

text \<open>\<open>x || null\<close> on a property that may be missing.\<close>

definition or_null :: "js option \<Rightarrow> js" where
  "or_null v = (case v of None \<Rightarrow> Null | Some x \<Rightarrow> if truthy x then x else Null)"

datatype error =
    NoSuchTable string
  | NoSuchColumn string string
  | BindFailed
  | SqlSyntax
  | ConstraintFailed string
  | JsonSyntax
  | TypeError
  | SnapshotNotFound jstr

section \<open>The schema (core/schema.sql)\<close>

text \<open>
  The declared types: \<open>TEXT\<close>, and \<open>INTEGER\<close> or \<open>BOOLEAN\<close>, which give a column the
  same conversions (integer and numeric affinity differ in a \<open>CAST\<close> only).
\<close>

datatype ctype = TInteger | TText

text \<open>A column: its name, its type, whether it is \<open>NOT NULL\<close>, and its default.\<close>

type_synonym column = "string \<times> ctype \<times> bool \<times> js"

definition characters_columns :: "column list" where
  "characters_columns =
    [(''id'', TText, False, Null),
     (''name'', TText, True, Null),
     (''affection'', TInteger, False, Num 0),
     (''emotion'', TText, False, Str (of_ascii ''neutral'')),
     (''personality'', TText, False, Null),
     (''current_location'', TText, False, Null),
     (''metadata'', TText, False, Null),
     (''created_at'', TInteger, True, Null),
     (''updated_at'', TInteger, True, Null)]"

definition timeline_columns :: "column list" where
  "timeline_columns =
    [(''id'', TText, False, Null),
     (''timestamp'', TInteger, True, Null),
     (''event_type'', TText, True, Null),
     (''description'', TText, True, Null),
     (''participants'', TText, False, Null),
     (''location'', TText, False, Null),
     (''importance'', TInteger, False, Num 1),
     (''metadata'', TText, False, Null),
     (''created_at'', TInteger, True, Null),
     (''updated_at'', TInteger, True, Null)]"

definition locations_columns :: "column list" where
  "locations_columns =
    [(''id'', TText, False, Null),
     (''name'', TText, True, Null),
     (''type'', TText, False, Null),
     (''parent_location'', TText, False, Null),
     (''connected_to'', TText, False, Null),
     (''description'', TText, False, Null),
     (''metadata'', TText, False, Null),
     (''created_at'', TInteger, True, Null),
     (''updated_at'', TInteger, True, Null)]"

definition inventory_columns :: "column list" where
  "inventory_columns =
    [(''id'', TText, False, Null),
     (''character_id'', TText, True, Null),
     (''item_name'', TText, True, Null),
     (''item_type'', TText, False, Null),
     (''quantity'', TInteger, False, Num 1),
     (''equipped'', TInteger, False, Num 0),
     (''properties'', TText, False, Null),
     (''created_at'', TInteger, True, Null),
     (''updated_at'', TInteger, True, Null)]"

definition memories_columns :: "column list" where
  "memories_columns =
    [(''id'', TText, False, Null),
     (''character_id'', TText, True, Null),
     (''content'', TText, True, Null),
     (''importance'', TInteger, False, Num 1),
     (''timestamp'', TInteger, True, Null),
     (''tags'', TText, False, Null),
     (''metadata'', TText, False, Null),
     (''created_at'', TInteger, True, Null),
     (''updated_at'', TInteger, True, Null)]"

definition state_snapshots_columns :: "column list" where
  "state_snapshots_columns =
    [(''id'', TText, False, Null),
     (''snapshot_time'', TInteger, True, Null),
     (''state_data'', TText, True, Null),
     (''description'', TText, False, Null),
     (''created_at'', TInteger, True, Null),
     (''updated_at'', TInteger, True, Null)]"

definition validation_logs_columns :: "column list" where
  "validation_logs_columns =
    [(''id'', TText, False, Null),
     (''timestamp'', TInteger, True, Null),
     (''validation_type'', TText, True, Null),
     (''passed'', TInteger, True, Null),
     (''details'', TText, False, Null),
     (''created_at'', TInteger, True, Null),
     (''updated_at'', TInteger, True, Null)]"

definition schema :: "string \<Rightarrow> column list option" where
  "schema t =
    (if t = ''characters'' then Some characters_columns
     else if t = ''timeline'' then Some timeline_columns
     else if t = ''locations'' then Some locations_columns
     else if t = ''inventory'' then Some inventory_columns
     else if t = ''memories'' then Some memories_columns
     else if t = ''state_snapshots'' then Some state_snapshots_columns
     else if t = ''validation_logs'' then Some validation_logs_columns
     else None)"

definition table_names :: "string list" where
  "table_names = [''characters'', ''timeline'', ''locations'', ''inventory'', ''memories'',
                  ''state_snapshots'', ''validation_logs'']"

definition column_names :: "column list \<Rightarrow> string list" where
  "column_names cols = map fst cols"

section \<open>What the store makes of a value\<close>

text \<open>
  better-sqlite3 binds a string as UTF-8, which has no unpaired surrogate: each one
  becomes U+FFFD, as \<open>String.prototype.toWellFormed\<close> does it.
\<close>

definition high_surrogate :: "nat \<Rightarrow> bool" where
  "high_surrogate c = (0xD800 \<le> c \<and> c \<le> 0xDBFF)"

definition low_surrogate :: "nat \<Rightarrow> bool" where
  "low_surrogate c = (0xDC00 \<le> c \<and> c \<le> 0xDFFF)"

fun toWellFormed :: "jstr \<Rightarrow> jstr" where
  "toWellFormed [] = []"
| "toWellFormed [c] = [if high_surrogate c \<or> low_surrogate c then 0xFFFD else c]"
| "toWellFormed (c # d # s) =
    (if high_surrogate c \<and> low_surrogate d then c # d # toWellFormed s
     else (if high_surrogate c \<or> low_surrogate c then 0xFFFD else c) # toWellFormed (d # s))"

text \<open>
  better-sqlite3 binds a number as a \<open>REAL\<close>. A column of type \<open>TEXT\<close> turns it into
  text, which SQLite prints with 15 significant digits and always with a fraction
  (\<open>%!.15g\<close>): \<open>5\<close> becomes \<open>5.0\<close>, and an integer of 16 digits or more is printed with
  an exponent.
\<close>

fun decimal :: "nat \<Rightarrow> jstr" where
  "decimal n = (if n < 10 then [0x30 + n] else decimal (n div 10) @ [0x30 + n mod 10])"

declare decimal.simps [simp del]

definition scientific :: "nat \<Rightarrow> jstr" where
  "scientific m =
    (let k = length (decimal m) - 15;
         q = (m + 5 * 10 ^ (k - 1)) div 10 ^ k;
         q' = (if 10 ^ 15 \<le> q then q div 10 else q);
         e = (if 10 ^ 15 \<le> q then k + 15 else k + 14);
         ds = decimal q';
         fraction = rev (dropWhile (\<lambda>c. c = 0x30) (rev (tl ds)))
     in hd ds # 0x2E # (if fraction = [] then [0x30] else fraction) @ [0x65, 0x2B] @ decimal e)"

definition real_text :: "int \<Rightarrow> jstr" where
  "real_text n =
    (if n < 0 then [0x2D] else [])
    @ (if \<bar>n\<bar> < 10 ^ 15 then decimal (nat \<bar>n\<bar>) @ [0x2E, 0x30] else scientific (nat \<bar>n\<bar>))"

text \<open>
  A column of type \<open>INTEGER\<close> or \<open>BOOLEAN\<close> turns a text that is a decimal integer,
  with or without a sign and white space around it, into that integer. A text that
  denotes a number with a fraction or an exponent would become that number, which is not
  a value of the model: the model keeps such a text, and \<open>exact\<close> below leaves it out.
\<close>

definition ascii_digit :: "nat \<Rightarrow> bool" where
  "ascii_digit c = (0x30 \<le> c \<and> c \<le> 0x39)"

definition sqlite_space :: "nat \<Rightarrow> bool" where
  "sqlite_space c = (c = 0x20 \<or> (0x09 \<le> c \<and> c \<le> 0x0D))"

definition integer_text :: "jstr \<Rightarrow> int option" where
  "integer_text s =
    (let body = rev (dropWhile sqlite_space (rev (dropWhile sqlite_space s)));
         negative = (case body of [] \<Rightarrow> False | c # r \<Rightarrow> c = 0x2D);
         ds = (case body of [] \<Rightarrow> [] | c # r \<Rightarrow> if c = 0x2D \<or> c = 0x2B then r else body);
         n = int (foldl (\<lambda>a c. 10 * a + (c - 0x30)) 0 ds)
     in if ds \<noteq> [] \<and> list_all ascii_digit ds
        then Some (if negative then - n else n)
        else None)"

text \<open>
  The value a column of the given type holds after a value was bound to it, as a later
  \<open>SELECT\<close> returns it: \<open>NaN\<close> is bound as \<open>NULL\<close>; a number stays a number in a
  numeric column and becomes text in a \<open>TEXT\<close> column; text stays text unless a numeric
  column can read it as a number. An array or an object cannot be bound at all.
\<close>

definition affinity :: "ctype \<Rightarrow> js \<Rightarrow> js" where
  "affinity ty v =
    (case v of
       Null \<Rightarrow> Null
     | Num n \<Rightarrow> if ty = TText then Str (real_text n) else Num n
     | NaN \<Rightarrow> Null
     | PosInf \<Rightarrow> if ty = TText then Str (of_ascii ''Inf'') else PosInf
     | NegInf \<Rightarrow> if ty = TText then Str (of_ascii ''-Inf'') else NegInf
     | Str s \<Rightarrow>
         if ty = TText then Str (toWellFormed s)
         else (case integer_text (toWellFormed s) of
                 Some n \<Rightarrow> Num n
               | None \<Rightarrow> Str (toWellFormed s))
     | Json j \<Rightarrow> if ty = TText then Json j else (case j of Num n \<Rightarrow> Num n | _ \<Rightarrow> Json j)
     | Arr xs \<Rightarrow> v
     | Obj kvs \<Rightarrow> v)"

text \<open>
  The conversions that the model states exactly as SQLite makes them. Left out are: the
  text of a number of 16 digits or more and of an infinite number; the integer of a text
  beyond \<open>2 ^ 53\<close>, which a double rounds; and a text with a digit in it that is no
  decimal integer, which SQLite may read as a number with a fraction or an exponent.
\<close>

definition exact :: "ctype \<Rightarrow> js \<Rightarrow> bool" where
  "exact ty v =
    (case v of
       Null \<Rightarrow> True
     | Num n \<Rightarrow> ty = TInteger \<or> \<bar>n\<bar> < 10 ^ 15
     | NaN \<Rightarrow> True
     | PosInf \<Rightarrow> ty = TInteger
     | NegInf \<Rightarrow> ty = TInteger
     | Str s \<Rightarrow>
         ty = TText \<or>
         (case integer_text (toWellFormed s) of
            Some n \<Rightarrow> \<bar>n\<bar> \<le> 2 ^ 53
          | None \<Rightarrow> \<not> list_ex ascii_digit s)
     | Json j \<Rightarrow> ty = TText \<or> (case j of Num n \<Rightarrow> \<bar>n\<bar> \<le> 2 ^ 53 | _ \<Rightarrow> True)
     | Arr xs \<Rightarrow> False
     | Obj kvs \<Rightarrow> False)"

text \<open>The values that a column of the given type stores as they are.\<close>

definition kept :: "ctype \<Rightarrow> js \<Rightarrow> bool" where
  "kept ty v = (exact ty v \<and> affinity ty v = v)"

section \<open>The states of the store\<close>

text \<open>
  A store is the rows of each table, in rowid order, which is the order in which a
  \<open>SELECT\<close> without \<open>ORDER BY\<close> returns them. Each row lists the columns of its table
  in the order of the schema.

  A cell holds what its column made of the value that was written to it, so converting it
  once more changes nothing; a cell of a \<open>NOT NULL\<close> column is not \<open>NULL\<close>.
\<close>

type_synonym database = "string \<Rightarrow> row list"

definition cell_ok :: "ctype \<Rightarrow> bool \<Rightarrow> js \<Rightarrow> bool" where
  "cell_ok ty nn v =
    (case v of
       Null \<Rightarrow> \<not> nn
     | NaN \<Rightarrow> False
     | Arr xs \<Rightarrow> False
     | Obj kvs \<Rightarrow> False
     | _ \<Rightarrow> affinity ty v = v)"

definition shape_ok :: "column list \<Rightarrow> row \<Rightarrow> bool" where
  "shape_ok cols r =
    (map fst r = column_names cols \<and>
     list_all2 (\<lambda>(c, ty, nn, d) (k, v). cell_ok ty nn v) cols r)"

text \<open>
  A \<open>CHECK(c >= lo AND c <= hi)\<close> and a \<open>CHECK(c >= lo)\<close>, on the cell as the column
  holds it. A \<open>NULL\<close> cell passes, as in SQL; text that a numeric column kept as text
  is greater than every number.
\<close>

definition between :: "row \<Rightarrow> string \<Rightarrow> int \<Rightarrow> int \<Rightarrow> bool" where
  "between r c lo hi =
    (case get_prop r c of
       None \<Rightarrow> True
     | Some Null \<Rightarrow> True
     | Some (Num n) \<Rightarrow> lo \<le> n \<and> n \<le> hi
     | Some v \<Rightarrow> False)"

definition at_least :: "row \<Rightarrow> string \<Rightarrow> int \<Rightarrow> bool" where
  "at_least r c lo =
    (case get_prop r c of
       Some (Num n) \<Rightarrow> lo \<le> n
     | Some NegInf \<Rightarrow> False
     | _ \<Rightarrow> True)"

definition check_ok :: "string \<Rightarrow> row \<Rightarrow> bool" where
  "check_ok t r =
    (if t = ''characters'' then between r ''affection'' 0 100
     else if t = ''timeline'' then between r ''importance'' 1 5
     else if t = ''inventory'' then at_least r ''quantity'' 0
     else if t = ''memories'' then between r ''importance'' 1 5
     else True)"

text \<open>A column of a row as SQL reads it: \<open>NULL\<close> where the row has no such cell.\<close>

definition col :: "row \<Rightarrow> string \<Rightarrow> js" where
  "col r c = (case get_prop r c of None \<Rightarrow> Null | Some v \<Rightarrow> v)"

definition cells :: "database \<Rightarrow> string \<Rightarrow> string \<Rightarrow> js list" where
  "cells d t c = map (\<lambda>r. col r c) (d t)"

text \<open>
  The foreign keys (\<open>PRAGMA foreign_keys = ON\<close>): the owner of an inventory item and of
  a memory is a character, the parent of a location is a location; a \<open>NULL\<close> reference
  is not checked.
\<close>

definition refers :: "database \<Rightarrow> string \<Rightarrow> string \<Rightarrow> string \<Rightarrow> bool" where
  "refers d t c parent =
    list_all (\<lambda>v. v = Null \<or> v \<in> set (cells d parent ''id'')) (cells d t c)"

definition fk_ok :: "database \<Rightarrow> bool" where
  "fk_ok d =
    (refers d ''inventory'' ''character_id'' ''characters'' \<and>
     refers d ''memories'' ''character_id'' ''characters'' \<and>
     refers d ''locations'' ''parent_location'' ''locations'')"

text \<open>A primary key of type \<open>TEXT\<close> is unique among the rows where it is not \<open>NULL\<close>.\<close>

definition table_ok :: "database \<Rightarrow> string \<Rightarrow> bool" where
  "table_ok d t =
    (case schema t of
       None \<Rightarrow> True
     | Some cols \<Rightarrow>
         list_all (\<lambda>r. shape_ok cols r \<and> check_ok t r) (d t) \<and>
         distinct (filter (\<lambda>v. v \<noteq> Null) (cells d t ''id'')))"

text \<open>
  The states SQLite accepts. SQLite checks a statement against the rows it touches; since
  the schema is in force from the creation of the store, every state of a store
  satisfies \<open>db_ok\<close>, and a statement succeeds exactly when the state it leads to does.
\<close>

definition db_ok :: "database \<Rightarrow> bool" where
  "db_ok d =
    (list_all (table_ok d) table_names \<and>
     distinct (cells d ''locations'' ''name'') \<and>
     fk_ok d)"

section \<open>The Store (core/database.js)\<close>

text \<open>
  The state of the program: the store, the three cache buckets of the State Manager (a
  \<open>Map\<close> keeps its keys in insertion order, so a bucket is an association list), and
  the random numbers behind \<open>randomUUID()\<close>, of which \<open>drawn\<close> have been taken. The
  clock \<open>Date.now()\<close> is an argument \<open>now\<close> of each operation, read once per call.
\<close>

record centry =
  c_data :: row
  c_timestamp :: int

type_synonym bucket = "(jstr \<times> centry) list"

record world =
  store :: database
  cache_characters :: bucket
  cache_locations :: bucket
  cache_inventory :: bucket
  entropy :: "nat \<Rightarrow> nat"
  drawn :: nat

type_synonym 'a io = "world \<Rightarrow> (error + 'a) \<times> world"

text \<open>
  \<open>randomUUID()\<close> prints a random number as a version 4 UUID: 36 characters, of which
  32 are lower-case hexadecimal digits, in groups of 8, 4, 4, 4 and 12.
\<close>

definition hex_digit :: "nat \<Rightarrow> nat" where
  "hex_digit n = (if n mod 16 < 10 then 0x30 + n mod 16 else 0x57 + n mod 16)"

fun hex :: "nat \<Rightarrow> nat \<Rightarrow> jstr" where
  "hex 0 n = []"
| "hex (Suc k) n = hex k (n div 16) @ [hex_digit n]"

definition uuid_string :: "nat \<Rightarrow> jstr" where
  "uuid_string n =
    hex 8 (n div 2 ^ 90) @ [0x2D] @ hex 4 (n div 2 ^ 74) @ [0x2D, 0x34] @ hex 3 (n div 2 ^ 62)
    @ [0x2D, hex_digit (8 + (n div 2 ^ 60) mod 4)] @ hex 3 (n div 2 ^ 48) @ [0x2D] @ hex 12 n"

definition randomUUID :: "world \<Rightarrow> jstr \<times> world" where
  "randomUUID w = (uuid_string (entropy w (drawn w)), w\<lparr>drawn := Suc (drawn w)\<rparr>)"

text \<open>\<open>data.id || randomUUID()\<close>: the identifier is drawn only when it is needed.\<close>

definition id_or_uuid :: "js option \<Rightarrow> world \<Rightarrow> js \<times> world" where
  "id_or_uuid v w =
    (if truthy_opt v then (or_null v, w) else (let (u, w') = randomUUID w in (Str u, w')))"

text \<open>
  A filter of the operations embedded here is a conjunction of equalities on numbers and
  strings. The operator forms of \<open>_buildWhereClause\<close> (\<open>gt\<close>, \<open>gte\<close>, \<open>lt\<close>, \<open>lte\<close>,
  \<open>like\<close>, \<open>in\<close>) and the \<open>orderBy\<close>, \<open>limit\<close> and \<open>offset\<close> options of \<open>getAll\<close>
  are used by \<open>getTimeline\<close>, \<open>getMemories\<close> and \<open>listSnapshots\<close> only, which are not
  embedded.
\<close>

datatype key = KNum int | KStr jstr

type_synonym filter_by = "(string \<times> key) list"

definition key_value :: "key \<Rightarrow> js" where
  "key_value k = (case k of KNum n \<Rightarrow> Num n | KStr s \<Rightarrow> Str s)"

definition ctype_of :: "column list \<Rightarrow> string \<Rightarrow> ctype" where
  "ctype_of cols c = (case map_of cols c of Some (ty, nn, dflt) \<Rightarrow> ty | None \<Rightarrow> TText)"

text \<open>
  \<open>c = ?\<close>: the bound value is compared after the conversion that the column gives it
  (a comparison applies the affinity of the column to an operand that has none), and
  \<open>NULL\<close> equals nothing.
\<close>

definition matches :: "column list \<Rightarrow> filter_by \<Rightarrow> row \<Rightarrow> bool" where
  "matches cols wh r =
    list_all (\<lambda>(c, k). col r c \<noteq> Null \<and> col r c = affinity (ctype_of cols c) (key_value k)) wh"

definition unknown_column :: "column list \<Rightarrow> string list \<Rightarrow> string option" where
  "unknown_column cols ks = find (\<lambda>c. c \<notin> set (column_names cols)) ks"

text \<open>\<open>_buildSelectQuery\<close> and \<open>stmt.get\<close>, \<open>stmt.all\<close>: an empty filter selects every row.\<close>

definition sql_select :: "database \<Rightarrow> string \<Rightarrow> filter_by \<Rightarrow> error + row list" where
  "sql_select d t wh =
    (case schema t of
       None \<Rightarrow> Inl (NoSuchTable t)
     | Some cols \<Rightarrow>
         (case unknown_column cols (map fst wh) of
            Some c \<Rightarrow> Inl (NoSuchColumn t c)
          | None \<Rightarrow> Inr (filter (matches cols wh) (d t))))"

definition db_get :: "string \<Rightarrow> filter_by \<Rightarrow> world \<Rightarrow> error + row option" where
  "db_get t wh w =
    (case sql_select (store w) t wh of
       Inl e \<Rightarrow> Inl e
     | Inr rs \<Rightarrow> Inr (case rs of [] \<Rightarrow> None | r # _ \<Rightarrow> Some r))"

definition db_getAll :: "string \<Rightarrow> filter_by \<Rightarrow> world \<Rightarrow> error + row list" where
  "db_getAll t wh w = sql_select (store w) t wh"

text \<open>
  better-sqlite3 binds numbers, strings, \<open>null\<close> and \<open>undefined\<close> (as \<open>NULL\<close>); an
  array or an object throws.
\<close>

fun bindable :: "js \<Rightarrow> bool" where
  "bindable (Arr xs) = False"
| "bindable (Obj kvs) = False"
| "bindable v = True"

text \<open>
  \<open>INSERT INTO t (columns of the record) VALUES (...)\<close>: a column the record does not
  name takes its default, and a value the record gives is stored as the column converts
  it.
\<close>

definition stored_row :: "column list \<Rightarrow> row \<Rightarrow> row" where
  "stored_row cols record =
    map (\<lambda>(c, ty, nn, dflt).
           (c, case get_prop record c of None \<Rightarrow> dflt | Some v \<Rightarrow> affinity ty v)) cols"

definition sql_insert :: "database \<Rightarrow> string \<Rightarrow> row \<Rightarrow> error + database" where
  "sql_insert d t record =
    (case schema t of
       None \<Rightarrow> Inl (NoSuchTable t)
     | Some cols \<Rightarrow>
         (case unknown_column cols (map fst record) of
            Some c \<Rightarrow> Inl (NoSuchColumn t c)
          | None \<Rightarrow>
              if \<not> list_all (\<lambda>(k, v). bindable v) record then Inl BindFailed
              else
                let d' = d(t := d t @ [stored_row cols record])
                in if db_ok d' then Inr d' else Inl (ConstraintFailed t)))"

text \<open>
  \<open>insert(table, data)\<close>: the record is \<open>{...data, id: data.id || randomUUID(),
  created_at: now, updated_at: now}\<close>; the result is \<open>{id, changes}\<close>.
\<close>

definition db_insert :: "string \<Rightarrow> row \<Rightarrow> int \<Rightarrow> (js \<times> nat) io" where
  "db_insert t data now w =
    (let (idv, w1) = id_or_uuid (get_prop data ''id'') w;
         record = put ''updated_at'' (Num now) (put ''created_at'' (Num now) (put ''id'' idv data))
     in case sql_insert (store w1) t record of
          Inl e \<Rightarrow> (Inl e, w1)
        | Inr d' \<Rightarrow> (Inr (idv, 1), w1\<lparr>store := d'\<rparr>))"

text \<open>
  \<open>UPDATE t SET k = ?, ... WHERE ...\<close> with \<open>updateData = {...data, updated_at: now}\<close>.
  An empty filter gives the text \<open>WHERE\<close> with no condition, which SQLite rejects.
\<close>

definition assign :: "column list \<Rightarrow> row \<Rightarrow> row \<Rightarrow> row" where
  "assign cols updateData r =
    map (\<lambda>(c, v). (c, case get_prop updateData c of
                         None \<Rightarrow> v
                       | Some v' \<Rightarrow> affinity (ctype_of cols c) v')) r"

definition sql_update :: "database \<Rightarrow> string \<Rightarrow> filter_by \<Rightarrow> row \<Rightarrow> error + database \<times> nat" where
  "sql_update d t wh updateData =
    (if wh = [] then Inl SqlSyntax
     else case schema t of
       None \<Rightarrow> Inl (NoSuchTable t)
     | Some cols \<Rightarrow>
         (case unknown_column cols (map fst updateData @ map fst wh) of
            Some c \<Rightarrow> Inl (NoSuchColumn t c)
          | None \<Rightarrow>
              if \<not> list_all (\<lambda>(k, v). bindable v) updateData then Inl BindFailed
              else
                let d' = d(t := map (\<lambda>r. if matches cols wh r then assign cols updateData r else r)
                                  (d t))
                in if db_ok d' then Inr (d', length (filter (matches cols wh) (d t)))
                   else Inl (ConstraintFailed t)))"

definition db_update :: "string \<Rightarrow> filter_by \<Rightarrow> row \<Rightarrow> int \<Rightarrow> nat io" where
  "db_update t wh data now w =
    (case sql_update (store w) t wh (put ''updated_at'' (Num now) data) of
       Inl e \<Rightarrow> (Inl e, w)
     | Inr (d', n) \<Rightarrow> (Inr n, w\<lparr>store := d'\<rparr>))"

text \<open>
  \<open>DELETE FROM t WHERE ...\<close>. Deleting a character deletes its inventory items and its
  memories (\<open>ON DELETE CASCADE\<close>); deleting a location that is still the parent of
  another fails.
\<close>

definition cascade :: "database \<Rightarrow> string \<Rightarrow> js list \<Rightarrow> database" where
  "cascade d t gone =
    (if t = ''characters'' then
       d(''inventory'' := filter (\<lambda>r. col r ''character_id'' \<notin> set gone) (d ''inventory''),
         ''memories'' := filter (\<lambda>r. col r ''character_id'' \<notin> set gone) (d ''memories''))
     else d)"

definition sql_delete_rows :: "database \<Rightarrow> string \<Rightarrow> (row \<Rightarrow> bool) \<Rightarrow> error + database \<times> nat" where
  "sql_delete_rows d t sel =
    (let gone = filter (\<lambda>v. v \<noteq> Null) (map (\<lambda>r. col r ''id'') (filter sel (d t)));
         d' = cascade (d(t := filter (\<lambda>r. \<not> sel r) (d t))) t gone
     in if db_ok d' then Inr (d', length (filter sel (d t))) else Inl (ConstraintFailed t))"

definition sql_delete :: "database \<Rightarrow> string \<Rightarrow> filter_by \<Rightarrow> error + database \<times> nat" where
  "sql_delete d t wh =
    (if wh = [] then Inl SqlSyntax
     else case schema t of
       None \<Rightarrow> Inl (NoSuchTable t)
     | Some cols \<Rightarrow>
         (case unknown_column cols (map fst wh) of
            Some c \<Rightarrow> Inl (NoSuchColumn t c)
          | None \<Rightarrow> sql_delete_rows d t (matches cols wh)))"

definition db_delete :: "string \<Rightarrow> filter_by \<Rightarrow> nat io" where
  "db_delete t wh w =
    (case sql_delete (store w) t wh of
       Inl e \<Rightarrow> (Inl e, w)
     | Inr (d', n) \<Rightarrow> (Inr n, w\<lparr>store := d'\<rparr>))"

text \<open>\<open>raw('DELETE FROM t')\<close>, the one use of the raw passthrough.\<close>

definition db_raw_delete_all :: "string \<Rightarrow> nat io" where
  "db_raw_delete_all t w =
    (case schema t of
       None \<Rightarrow> (Inl (NoSuchTable t), w)
     | Some cols \<Rightarrow>
         (case sql_delete_rows (store w) t (\<lambda>r. True) of
            Inl e \<Rightarrow> (Inl e, w)
          | Inr (d', n) \<Rightarrow> (Inr n, w\<lparr>store := d'\<rparr>)))"

text \<open>
  \<open>transaction(callback)\<close>: better-sqlite3 commits when the callback returns and rolls
  the store back when it throws; the error is thrown again. What the callback did outside
  the store (the identifiers it drew) stays.
\<close>

definition transaction :: "'a io \<Rightarrow> 'a io" where
  "transaction callback w =
    (case callback w of
       (Inl e, w') \<Rightarrow> (Inl e, w'\<lparr>store := store w\<rparr>)
     | (Inr x, w') \<Rightarrow> (Inr x, w'))"

text \<open>Sequencing of operations that may throw.\<close>

definition bind :: "'a io \<Rightarrow> ('a \<Rightarrow> 'b io) \<Rightarrow> 'b io" where
  "bind m f w = (case m w of (Inl e, w') \<Rightarrow> (Inl e, w') | (Inr x, w') \<Rightarrow> f x w')"

definition ret :: "'a \<Rightarrow> 'a io" where
  "ret x w = (Inr x, w)"

definition throw :: "error \<Rightarrow> 'a io" where
  "throw e w = (Inl e, w)"

section \<open>The State Manager (state/manager.js)\<close>

text \<open>
  The options as the constructor sets them: \<open>enableCache: options.enableCache !== false\<close>,
  \<open>cacheSize: options.cacheSize || 100\<close>, \<open>cacheTTL: options.cacheTTL || 60000\<close>.
\<close>

record sm_options =
  enableCache :: bool
  cacheSize :: nat
  cacheTTL :: int

definition StateManager_options :: "bool option \<Rightarrow> nat option \<Rightarrow> int option \<Rightarrow> sm_options" where
  "StateManager_options ec cs ttl =
    \<lparr>enableCache = (ec \<noteq> Some False),
     cacheSize = (case cs of None \<Rightarrow> 100 | Some n \<Rightarrow> if n = 0 then 100 else n),
     cacheTTL = (case ttl of None \<Rightarrow> 60000 | Some t \<Rightarrow> if t = 0 then 60000 else t)\<rparr>"

text \<open>The operations of a \<open>Map\<close>: \<open>set\<close> on a key it holds keeps the key's place.\<close>

fun map_set :: "jstr \<Rightarrow> centry \<Rightarrow> bucket \<Rightarrow> bucket" where
  "map_set k v [] = [(k, v)]"
| "map_set k v ((k', v') # b) = (if k = k' then (k, v) # b else (k', v') # map_set k v b)"

definition map_delete :: "jstr \<Rightarrow> bucket \<Rightarrow> bucket" where
  "map_delete k b = filter (\<lambda>(k', v). k' \<noteq> k) b"

text \<open>\<open>JSON.stringify\<close> and \<open>JSON.parse\<close> on the values of the model.\<close>

definition json_stringify :: "js \<Rightarrow> js" where
  "json_stringify v = Json (jsonify v)"

fun json_parse :: "js \<Rightarrow> error + js" where
  "json_parse (Json j) = Inr j"
| "json_parse (Num n) = Inr (Num n)"
| "json_parse Null = Inr Null"
| "json_parse v = Inl JsonSyntax"

text \<open>\<open>x ? JSON.stringify(x) : null\<close> and \<open>x ? JSON.parse(x) : dflt\<close>.\<close>

definition stringify_or_null :: "js option \<Rightarrow> js" where
  "stringify_or_null v = (case v of None \<Rightarrow> Null | Some x \<Rightarrow> if truthy x then json_stringify x else Null)"

definition parse_or :: "js \<Rightarrow> js \<Rightarrow> error + js" where
  "parse_or dflt v = (if truthy v then json_parse v else Inr dflt)"

text \<open>\<open>x || dflt\<close> on a property that may be missing.\<close>

definition or_else :: "js option \<Rightarrow> js \<Rightarrow> js" where
  "or_else v dflt = (case v of None \<Rightarrow> dflt | Some x \<Rightarrow> if truthy x then x else dflt)"

text \<open>
  A property the caller left out is \<open>undefined\<close> in the record that the operations
  which create a row build, and better-sqlite3 binds \<open>undefined\<close> as \<open>NULL\<close>: the
  record holds \<open>col data k\<close> for it.
\<close>

definition getCharacterState :: "sm_options \<Rightarrow> jstr \<Rightarrow> int \<Rightarrow> (row option) io" where
  "getCharacterState opts characterId now w =
    (let hit = (if enableCache opts then
                  (case map_of (cache_characters w) characterId of
                     Some cached \<Rightarrow>
                       if now - c_timestamp cached < cacheTTL opts then Some (c_data cached) else None
                   | None \<Rightarrow> None)
                else None)
     in case hit of
          Some data \<Rightarrow> (Inr (Some data), w)
        | None \<Rightarrow>
            (case db_get ''characters'' [(''id'', KStr characterId)] w of
               Inl e \<Rightarrow> (Inl e, w)
             | Inr None \<Rightarrow> (Inr None, w)
             | Inr (Some character) \<Rightarrow>
                 if enableCache opts then
                   (let b1 = map_set characterId \<lparr>c_data = character, c_timestamp = now\<rparr>
                               (cache_characters w);
                        b2 = (if length b1 > cacheSize opts
                              then (case b1 of [] \<Rightarrow> b1 | (firstKey, v) # rest \<Rightarrow> map_delete firstKey b1)
                              else b1)
                    in (Inr (Some character), w\<lparr>cache_characters := b2\<rparr>))
                 else (Inr (Some character), w)))"

definition createCharacter :: "row \<Rightarrow> int \<Rightarrow> (js \<times> nat) io" where
  "createCharacter data now w =
    (let (idv, w1) = id_or_uuid (get_prop data ''id'') w
     in case db_insert ''characters''
               [(''id'', idv),
                (''name'', col data ''name''),
                (''affection'', or_else (get_prop data ''affection'') (Num 0)),
                (''emotion'', or_else (get_prop data ''emotion'') (Str (of_ascii ''neutral''))),
                (''personality'', stringify_or_null (get_prop data ''personality'')),
                (''current_location'', or_null (get_prop data ''current_location'')),
                (''metadata'', stringify_or_null (get_prop data ''metadata''))] now w1 of
          (Inl e, w2) \<Rightarrow> (Inl e, w2)
        | (Inr res, w2) \<Rightarrow>
            (Inr res, w2\<lparr>cache_characters :=
                (case idv of Str k \<Rightarrow> map_delete k (cache_characters w2)
                 | _ \<Rightarrow> cache_characters w2)\<rparr>))"

text \<open>
  \<open>updateCharacterState\<close>: the \<open>personality\<close> and \<open>metadata\<close> of the updates are
  serialised when they are truthy; after the update the cache entry of the character is
  deleted.
\<close>

definition stringify_field :: "string \<Rightarrow> row \<Rightarrow> row" where
  "stringify_field k r =
    (case get_prop r k of
       Some v \<Rightarrow> if truthy v then put k (json_stringify v) r else r
     | None \<Rightarrow> r)"

definition updateCharacterState :: "jstr \<Rightarrow> row \<Rightarrow> int \<Rightarrow> nat io" where
  "updateCharacterState characterId updates now w =
    (let updateData = stringify_field ''metadata'' (stringify_field ''personality'' updates)
     in case db_update ''characters'' [(''id'', KStr characterId)] updateData now w of
          (Inl e, w1) \<Rightarrow> (Inl e, w1)
        | (Inr res, w1) \<Rightarrow>
            (Inr res, w1\<lparr>cache_characters := map_delete characterId (cache_characters w1)\<rparr>))"

definition deleteCharacter :: "jstr \<Rightarrow> nat io" where
  "deleteCharacter characterId w =
    (case db_delete ''characters'' [(''id'', KStr characterId)] w of
       (Inl e, w1) \<Rightarrow> (Inl e, w1)
     | (Inr res, w1) \<Rightarrow>
         (Inr res, w1\<lparr>cache_characters := map_delete characterId (cache_characters w1)\<rparr>))"

definition addTimelineEvent :: "row \<Rightarrow> int \<Rightarrow> (js \<times> nat) io" where
  "addTimelineEvent event now w =
    (let (idv, w1) = id_or_uuid (get_prop event ''id'') w
     in db_insert ''timeline''
          [(''id'', idv),
           (''timestamp'', or_else (get_prop event ''timestamp'') (Num now)),
           (''event_type'', col event ''event_type''),
           (''description'', col event ''description''),
           (''participants'', stringify_or_null (get_prop event ''participants'')),
           (''location'', or_null (get_prop event ''location'')),
           (''importance'', or_else (get_prop event ''importance'') (Num 1)),
           (''metadata'', stringify_or_null (get_prop event ''metadata''))] now w1)"

text \<open>
  \<open>getLocation\<close> caches the location with its \<open>connected_to\<close> and \<open>metadata\<close> parsed.
  Unlike \<open>getCharacterState\<close> it does not look at the size of its bucket.
\<close>

definition getLocation :: "sm_options \<Rightarrow> jstr \<Rightarrow> int \<Rightarrow> (row option) io" where
  "getLocation opts locationId now w =
    (let hit = (if enableCache opts then
                  (case map_of (cache_locations w) locationId of
                     Some cached \<Rightarrow>
                       if now - c_timestamp cached < cacheTTL opts then Some (c_data cached) else None
                   | None \<Rightarrow> None)
                else None)
     in case hit of
          Some data \<Rightarrow> (Inr (Some data), w)
        | None \<Rightarrow>
            (case db_get ''locations'' [(''id'', KStr locationId)] w of
               Inl e \<Rightarrow> (Inl e, w)
             | Inr None \<Rightarrow> (Inr None, w)
             | Inr (Some location) \<Rightarrow>
                 (case parse_or (Arr []) (col location ''connected_to'') of
                    Inl e \<Rightarrow> (Inl e, w)
                  | Inr links \<Rightarrow>
                      (case parse_or (Obj []) (col location ''metadata'') of
                         Inl e \<Rightarrow> (Inl e, w)
                       | Inr metadata \<Rightarrow>
                           (let parsedLocation =
                                  put ''metadata'' metadata (put ''connected_to'' links location)
                            in if enableCache opts then
                                 (Inr (Some parsedLocation),
                                  w\<lparr>cache_locations :=
                                      map_set locationId
                                        \<lparr>c_data = parsedLocation, c_timestamp = now\<rparr>
                                        (cache_locations w)\<rparr>)
                               else (Inr (Some parsedLocation), w))))))"

definition createLocation :: "row \<Rightarrow> int \<Rightarrow> (js \<times> nat) io" where
  "createLocation data now w =
    (let (idv, w1) = id_or_uuid (get_prop data ''id'') w
     in db_insert ''locations''
          [(''id'', idv),
           (''name'', col data ''name''),
           (''type'', or_null (get_prop data ''type'')),
           (''parent_location'', or_null (get_prop data ''parent_location'')),
           (''connected_to'', stringify_or_null (get_prop data ''connected_to'')),
           (''description'', or_null (get_prop data ''description'')),
           (''metadata'', stringify_or_null (get_prop data ''metadata''))] now w1)"

text \<open>
  \<open>getInventory\<close>: the rows of the character, each with its \<open>properties\<close> parsed; one
  row whose \<open>properties\<close> do not parse makes the call throw.
\<close>

record inventory_query =
  q_itemType :: "jstr option"
  q_equipped :: "bool option"

fun parse_properties :: "row list \<Rightarrow> error + row list" where
  "parse_properties [] = Inr []"
| "parse_properties (item # items) =
    (case parse_or (Obj []) (col item ''properties'') of
       Inl e \<Rightarrow> Inl e
     | Inr p \<Rightarrow>
         (case parse_properties items of
            Inl e \<Rightarrow> Inl e
          | Inr rest \<Rightarrow> Inr (put ''properties'' p item # rest)))"

definition getInventory :: "jstr \<Rightarrow> inventory_query \<Rightarrow> (row list) io" where
  "getInventory characterId options w =
    (let wh = [(''character_id'', KStr characterId)]
              @ (case q_itemType options of
                   Some ty \<Rightarrow> if ty \<noteq> [] then [(''item_type'', KStr ty)] else []
                 | None \<Rightarrow> [])
              @ (case q_equipped options of
                   Some e \<Rightarrow> [(''equipped'', KNum (if e then 1 else 0))]
                 | None \<Rightarrow> [])
     in case db_getAll ''inventory'' wh w of
          Inl e \<Rightarrow> (Inl e, w)
        | Inr items \<Rightarrow> (case parse_properties items of Inl e \<Rightarrow> (Inl e, w) | Inr r \<Rightarrow> (Inr r, w)))"

definition addInventoryItem :: "jstr \<Rightarrow> row \<Rightarrow> int \<Rightarrow> (js \<times> nat) io" where
  "addInventoryItem characterId item now w =
    (let (idv, w1) = id_or_uuid (get_prop item ''id'') w
     in db_insert ''inventory''
          [(''id'', idv),
           (''character_id'', Str characterId),
           (''item_name'', col item ''item_name''),
           (''item_type'', or_null (get_prop item ''item_type'')),
           (''quantity'', or_else (get_prop item ''quantity'') (Num 1)),
           (''equipped'', Num (if truthy_opt (get_prop item ''equipped'') then 1 else 0)),
           (''properties'', stringify_or_null (get_prop item ''properties''))] now w1)"

definition deleteInventoryItem :: "js \<Rightarrow> nat io" where
  "deleteInventoryItem itemId w =
    (case itemId of
       Str s \<Rightarrow> db_delete ''inventory'' [(''id'', KStr s)] w
     | Num n \<Rightarrow> db_delete ''inventory'' [(''id'', KNum n)] w
     | _ \<Rightarrow> (Inr 0, w))"




text \<open>
  \<open>restoreSnapshot\<close>. The loop \<open>for (const row of state.table) db.insert(table, row)\<close>
  needs \<open>state.table\<close> to be iterable: an array, or a string, whose elements are its
  characters. \<open>insert\<close> reads \<open>data.id\<close>, which throws on \<open>null\<close>, and spreads
  \<open>data\<close>: a number spreads to no property, an array or a string to its indices, of
  which the model keeps the first, as no column has that name.
\<close>

fun elements :: "js option \<Rightarrow> error + js list" where
  "elements (Some (Arr xs)) = Inr xs"
| "elements (Some (Str s)) = Inr (map (\<lambda>c. Str [c]) s)"
| "elements (Some (Json j)) = Inr [Str [0]]"
| "elements v = Inl TypeError"

fun spread :: "js \<Rightarrow> error + row" where
  "spread (Obj r) = Inr r"
| "spread Null = Inl TypeError"
| "spread (Num n) = Inr []"
| "spread NaN = Inr []"
| "spread PosInf = Inr []"
| "spread NegInf = Inr []"
| "spread (Arr []) = Inr []"
| "spread (Arr (x # xs)) = Inr [(''0'', x)]"
| "spread (Str []) = Inr []"
| "spread (Str (c # cs)) = Inr [(''0'', Str [c])]"
| "spread (Json j) = Inr [(''0'', Str [0])]"

fun insert_all :: "string \<Rightarrow> js list \<Rightarrow> int \<Rightarrow> unit io" where
  "insert_all t [] now w = (Inr (), w)"
| "insert_all t (x # xs) now w =
    (case spread x of
       Inl e \<Rightarrow> (Inl e, w)
     | Inr data \<Rightarrow>
         (case db_insert t data now w of
            (Inl e, w1) \<Rightarrow> (Inl e, w1)
          | (Inr res, w1) \<Rightarrow> insert_all t xs now w1))"

definition js_field :: "js \<Rightarrow> string \<Rightarrow> js option" where
  "js_field state k = (case state of Obj kvs \<Rightarrow> get_prop kvs k | _ \<Rightarrow> None)"

definition restore_table :: "js \<Rightarrow> string \<Rightarrow> int \<Rightarrow> unit io" where
  "restore_table state t now w =
    (case elements (js_field state t) of
       Inl e \<Rightarrow> (Inl e, w)
     | Inr xs \<Rightarrow> insert_all t xs now w)"

definition restore_body :: "js \<Rightarrow> int \<Rightarrow> unit io" where
  "restore_body state now =
    bind (db_raw_delete_all ''characters'') (\<lambda>_.
    bind (db_raw_delete_all ''timeline'') (\<lambda>_.
    bind (db_raw_delete_all ''locations'') (\<lambda>_.
    bind (db_raw_delete_all ''inventory'') (\<lambda>_.
    bind (db_raw_delete_all ''memories'') (\<lambda>_.
    bind (restore_table state ''characters'' now) (\<lambda>_.
    bind (restore_table state ''timeline'' now) (\<lambda>_.
    bind (restore_table state ''locations'' now) (\<lambda>_.
    bind (restore_table state ''inventory'' now) (\<lambda>_.
         restore_table state ''memories'' now)))))))))"

definition clearCache :: "world \<Rightarrow> world" where
  "clearCache w = w\<lparr>cache_characters := [], cache_locations := [], cache_inventory := []\<rparr>"

definition restoreSnapshot :: "jstr \<Rightarrow> int \<Rightarrow> unit io" where
  "restoreSnapshot snapshotId now w =
    (case db_get ''state_snapshots'' [(''id'', KStr snapshotId)] w of
       Inl e \<Rightarrow> (Inl e, w)
     | Inr None \<Rightarrow> (Inl (SnapshotNotFound snapshotId), w)
     | Inr (Some snapshot) \<Rightarrow>
         (case json_parse (col snapshot ''state_data'') of
            Inl e \<Rightarrow> (Inl e, w)
          | Inr state \<Rightarrow>
              (case transaction (restore_body state now) w of
                 (Inl e, w1) \<Rightarrow> (Inl e, w1)
               | (Inr u, w1) \<Rightarrow> (Inr (), clearCache w1))))"

section \<open>The State Validator (state/validator.js)\<close>

datatype severity = ERROR | WARNING | INFO

text \<open>
  The message of a finding, by its template and the values the template prints (they are
  the extra properties of the finding as well). \<open>Thrown\<close> is the message of an error
  that the integrator caught.
\<close>

datatype message =
    CharacterNotFound jstr
  | AffectionOutOfRange int
  | AffectionChangeTooLarge int
  | InvalidEmotion jstr
  | UnlikelyTransition jstr jstr
  | LocationDoesNotExist jstr
  | LocationNotReachable jstr js
  | EventTypeRequired
  | DescriptionRequired
  | InvalidTimestamp int
  | TimestampTooFar int
  | ImportanceOutOfRange int
  | TooManyParticipants nat
  | ItemNameRequired
  | QuantityNegative int
  | QuantityTooLarge int
  | AlreadyEquipped jstr js
  | Thrown error

record finding =
  field :: string
  message :: message
  severity :: "severity option"

record validation =
  passed :: bool
  errors :: "finding list"
  warnings :: "finding list"
  info :: "finding list"

definition buildResult :: "bool \<Rightarrow> finding list \<Rightarrow> finding list \<Rightarrow> validation" where
  "buildResult p errs warns =
    \<lparr>passed = p,
     errors = filter (\<lambda>e. severity e = Some ERROR) errs,
     warnings = warns @ filter (\<lambda>e. severity e = Some WARNING) errs,
     info = filter (\<lambda>e. severity e = Some INFO) errs\<rparr>"

text \<open>
  \<open>_validateAffection(currentValue, newValue)\<close>. The current value is the cell of the
  store, which the \<open>CHECK\<close> of the column keeps \<open>NULL\<close> or a number from 0 to 100.
\<close>

definition validateAffection :: "js \<Rightarrow> int \<Rightarrow> finding list" where
  "validateAffection currentValue newValue =
    (if newValue < 0 \<or> newValue > 100
     then [\<lparr>field = ''affection'', message = AffectionOutOfRange newValue, severity = Some ERROR\<rparr>]
     else [])
    @ (case currentValue of
         Num c \<Rightarrow>
           if \<bar>newValue - c\<bar> > 20
           then [\<lparr>field = ''affection'', message = AffectionChangeTooLarge \<bar>newValue - c\<bar>,
                  severity = Some WARNING\<rparr>]
           else []
       | _ \<Rightarrow> [])"

definition validEmotions :: "jstr list" where
  "validEmotions = map of_ascii
    [''neutral'', ''happy'', ''sad'', ''angry'', ''excited'',
     ''scared'', ''confused'', ''calm'', ''anxious'', ''loving'']"

definition invalidTransitions :: "(jstr \<times> jstr list) list" where
  "invalidTransitions =
    [(of_ascii ''happy'', map of_ascii [''sad'', ''angry'', ''scared'']),
     (of_ascii ''sad'', map of_ascii [''happy'', ''excited'']),
     (of_ascii ''angry'', map of_ascii [''happy'', ''loving'']),
     (of_ascii ''calm'', map of_ascii [''angry'', ''anxious''])]"

text \<open>
  \<open>invalidTransitions[currentEmotion]?.includes(newEmotion)\<close>: the table is an object
  literal, so a current emotion that names a property of \<open>Object.prototype\<close> finds a
  value that has no \<open>includes\<close>, and the call throws.
\<close>

definition object_prototype_keys :: "jstr list" where
  "object_prototype_keys = map of_ascii
    [''constructor'', ''__proto__'', ''hasOwnProperty'', ''isPrototypeOf'',
     ''propertyIsEnumerable'', ''toLocaleString'', ''toString'', ''valueOf'',
     ''__defineGetter__'', ''__defineSetter__'', ''__lookupGetter__'', ''__lookupSetter__'']"

definition validateEmotion :: "js \<Rightarrow> jstr \<Rightarrow> error + finding list" where
  "validateEmotion currentEmotion newEmotion =
    (let errs = (if \<not> newEmotion \<in> set validEmotions
                 then [\<lparr>field = ''emotion'', message = InvalidEmotion newEmotion,
                        severity = Some ERROR\<rparr>]
                 else [])
     in case currentEmotion of
          Str cur \<Rightarrow>
            if cur = [] then Inr errs
            else (case map_of invalidTransitions cur of
                    Some unlikely \<Rightarrow>
                      if newEmotion \<in> set unlikely
                      then Inr (errs @ [\<lparr>field = ''emotion'',
                                         message = UnlikelyTransition cur newEmotion,
                                         severity = Some WARNING\<rparr>])
                      else Inr errs
                  | None \<Rightarrow>
                      if cur \<in> set object_prototype_keys then Inl TypeError else Inr errs)
        | _ \<Rightarrow> Inr errs)"

text \<open>
  \<open>connectedLocations.some(loc => loc.id === newLocation)\<close>: reading \<open>id\<close> of
  \<open>null\<close> throws (\<open>None\<close>); \<open>some\<close> stops at the first element that matches.
\<close>

fun some_id :: "js list \<Rightarrow> jstr \<Rightarrow> bool option" where
  "some_id [] n = Some False"
| "some_id (Null # locs) n = None"
| "some_id (Obj loc # locs) n =
    (if get_prop loc ''id'' = Some (Str n) then Some True else some_id locs n)"
| "some_id (v # locs) n = some_id locs n"

text \<open>
  \<open>_validateLocationChange\<close>. The parse of \<open>connected_to\<close> and the search are inside
  a \<open>try\<close> whose \<open>catch\<close> is empty: a text that is no JSON, a document that is no
  array, and a \<open>null\<close> element all skip the reachability check.
\<close>

definition key_of :: "js \<Rightarrow> key option" where
  "key_of v = (case v of Str s \<Rightarrow> Some (KStr s) | Num n \<Rightarrow> Some (KNum n) | _ \<Rightarrow> None)"

definition validateLocationChange :: "js \<Rightarrow> jstr \<Rightarrow> world \<Rightarrow> error + finding list" where
  "validateLocationChange currentLocation newLocation w =
    (if \<not> truthy currentLocation \<or> newLocation = [] then Inr []
     else case db_get ''locations'' [(''id'', KStr newLocation)] w of
       Inl e \<Rightarrow> Inl e
     | Inr None \<Rightarrow>
         Inr [\<lparr>field = ''current_location'', message = LocationDoesNotExist newLocation,
               severity = Some ERROR\<rparr>]
     | Inr (Some locationExists) \<Rightarrow>
         (case (case key_of currentLocation of
                  None \<Rightarrow> Inr None
                | Some k \<Rightarrow> db_get ''locations'' [(''id'', k)] w) of
            Inl e \<Rightarrow> Inl e
          | Inr None \<Rightarrow> Inr []
          | Inr (Some currentLocationData) \<Rightarrow>
              (case col currentLocationData ''connected_to'' of
                 Json (Arr connectedLocations) \<Rightarrow>
                   (case some_id connectedLocations newLocation of
                      None \<Rightarrow> Inr []
                    | Some isReachable \<Rightarrow>
                        if \<not> isReachable \<and> currentLocation \<noteq> Str newLocation
                        then Inr [\<lparr>field = ''current_location'',
                                   message = LocationNotReachable newLocation currentLocation,
                                   severity = Some WARNING\<rparr>]
                        else Inr [])
               | _ \<Rightarrow> Inr [])))"

text \<open>
  \<open>validateCharacterUpdate(characterId, updates)\<close>, for updates of the three properties
  it looks at; \<open>None\<close> is a property the updates do not have. The result passes when
  the list of findings is empty, before \<open>_buildResult\<close> sorts the findings by severity.
\<close>

record char_updates =
  upd_affection :: "int option"
  upd_emotion :: "jstr option"
  upd_current_location :: "jstr option"

definition validateCharacterUpdate :: "jstr \<Rightarrow> char_updates \<Rightarrow> world \<Rightarrow> error + validation" where
  "validateCharacterUpdate characterId updates w =
    (case db_get ''characters'' [(''id'', KStr characterId)] w of
       Inl e \<Rightarrow> Inl e
     | Inr None \<Rightarrow>
         Inr (buildResult False
                [\<lparr>field = ''id'', message = CharacterNotFound characterId, severity = Some ERROR\<rparr>] [])
     | Inr (Some currentState) \<Rightarrow>
         (let e1 = (case upd_affection updates of
                      None \<Rightarrow> []
                    | Some a \<Rightarrow> validateAffection (col currentState ''affection'') a)
          in case (case upd_emotion updates of
                     None \<Rightarrow> Inr []
                   | Some e \<Rightarrow> validateEmotion (col currentState ''emotion'') e) of
               Inl err \<Rightarrow> Inl err
             | Inr e2 \<Rightarrow>
                 (case (case upd_current_location updates of
                          None \<Rightarrow> Inr []
                        | Some l \<Rightarrow>
                            validateLocationChange (col currentState ''current_location'') l w) of
                    Inl err \<Rightarrow> Inl err
                  | Inr e3 \<Rightarrow>
                      (let errs = e1 @ e2 @ e3 in Inr (buildResult (errs = []) errs [])))))"

text \<open>
  \<open>validateTimelineEvent\<close>, for the events the extractor builds, which set every
  property; an empty string is the falsy \<open>event_type\<close> or \<open>description\<close>.
\<close>

record event =
  ev_type :: jstr
  ev_description :: jstr
  ev_timestamp :: int
  ev_importance :: int
  ev_participants :: "jstr list"

definition validateTimestamp :: "int \<Rightarrow> int \<Rightarrow> finding list" where
  "validateTimestamp ts now =
    (if ts < 0
     then [\<lparr>field = ''timestamp'', message = InvalidTimestamp ts, severity = Some ERROR\<rparr>]
     else [])
    @ (if ts > now + 86400000
       then [\<lparr>field = ''timestamp'', message = TimestampTooFar ts, severity = Some WARNING\<rparr>]
       else [])"

definition validateParticipants :: "jstr list \<Rightarrow> finding list" where
  "validateParticipants ps =
    (if length ps > 10
     then [\<lparr>field = ''participants'', message = TooManyParticipants (length ps),
            severity = Some WARNING\<rparr>]
     else [])"

definition validateTimelineEvent :: "event \<Rightarrow> int \<Rightarrow> validation" where
  "validateTimelineEvent ev now =
    (let errs =
       (if ev_type ev = []
        then [\<lparr>field = ''event_type'', message = EventTypeRequired, severity = Some ERROR\<rparr>]
        else [])
       @ (if ev_description ev = []
          then [\<lparr>field = ''description'', message = DescriptionRequired, severity = Some ERROR\<rparr>]
          else [])
       @ validateTimestamp (ev_timestamp ev) now
       @ (if ev_importance ev < 1 \<or> ev_importance ev > 5
          then [\<lparr>field = ''importance'', message = ImportanceOutOfRange (ev_importance ev),
                 severity = Some ERROR\<rparr>]
          else [])
       @ validateParticipants (ev_participants ev)
     in buildResult (errs = []) errs [])"

text \<open>
  \<open>validateInventoryItem\<close>. The integrator passes \<open>{item_name, quantity}\<close>; an item
  may also say that it is equipped, its type and its id. The quantity \<open>None\<close> is
  \<open>NaN\<close>, which is neither below 0 nor above 999.
\<close>

record item =
  it_name :: jstr
  it_quantity :: "int option"
  it_equipped :: bool
  it_type :: "jstr option"
  it_id :: "jstr option"

definition validateEquipmentConflict :: "jstr \<Rightarrow> jstr \<Rightarrow> jstr option \<Rightarrow> world \<Rightarrow> error + finding list" where
  "validateEquipmentConflict characterId itemType currentItemId w =
    (if itemType \<in> set (map of_ascii [''weapon'', ''armor'', ''accessory'']) then
       (case db_getAll ''inventory''
               [(''character_id'', KStr characterId), (''item_type'', KStr itemType),
                (''equipped'', KNum 1)] w of
          Inl e \<Rightarrow> Inl e
        | Inr equippedItems \<Rightarrow>
            (case filter (\<lambda>i. Some (col i ''id'') \<noteq> map_option Str currentItemId) equippedItems of
               [] \<Rightarrow> Inr []
             | c # cs \<Rightarrow>
                 Inr [\<lparr>field = ''equipped'', message = AlreadyEquipped itemType (col c ''item_name''),
                       severity = Some WARNING\<rparr>]))
     else Inr [])"

definition validateInventoryItem :: "jstr \<Rightarrow> item \<Rightarrow> world \<Rightarrow> error + validation" where
  "validateInventoryItem characterId it w =
    (let e1 =
       (if it_name it = []
        then [\<lparr>field = ''item_name'', message = ItemNameRequired, severity = Some ERROR\<rparr>]
        else [])
       @ (case it_quantity it of
            None \<Rightarrow> []
          | Some q \<Rightarrow>
              (if q < 0
               then [\<lparr>field = ''quantity'', message = QuantityNegative q, severity = Some ERROR\<rparr>]
               else [])
              @ (if q > 999
                 then [\<lparr>field = ''quantity'', message = QuantityTooLarge q,
                        severity = Some WARNING\<rparr>]
                 else []))
     in case (case it_type it of
                Some ty \<Rightarrow>
                  if it_equipped it \<and> ty \<noteq> []
                  then validateEquipmentConflict characterId ty (it_id it) w
                  else Inr []
              | None \<Rightarrow> Inr []) of
          Inl err \<Rightarrow> Inl err
        | Inr e2 \<Rightarrow> (let errs = e1 @ e2 in Inr (buildResult (errs = []) errs [])))"

section \<open>Regular expressions\<close>

text \<open>
  The patterns of the extractor are data: a regular expression is a term of \<open>rx\<close>, and
  \<open>rx_match\<close> is the backtracking matcher of the language (ECMA-262, 22.2.2) for the
  constructs the patterns use. A continuation receives the state after a part has
  matched; alternatives are tried from the left, a greedy quantifier tries one more
  iteration before it tries to go on, a lazy one the other way round. \<open>Grp i r\<close> is the
  capturing group number \<open>i\<close>. No pattern of the program has a group under \<open>*\<close> or
  \<open>+\<close>, so captures are never reset.

  With the flag \<open>i\<close> two code units match when their canonical forms agree. The model
  folds the case of ASCII letters only. That decides every match of the patterns of this
  program, which are made of ASCII and of ideographs and fullwidth signs that have no
  case: a code unit outside ASCII never has an ASCII canonical form.
\<close>

datatype rx =
    Lit nat
  | Dot
  | Cls "(nat \<times> nat) list"
  | Seq rx rx
  | Alt rx rx
  | Opt rx
  | Star rx
  | LazyStar rx
  | Grp nat rx
  | Bol
  | Eps

record mstate =
  pos :: nat
  rest :: jstr
  caps :: "(nat \<times> jstr) list"

definition ascii_upper :: "nat \<Rightarrow> nat" where
  "ascii_upper c = (if 97 \<le> c \<and> c \<le> 122 then c - 32 else c)"

definition ascii_lower :: "nat \<Rightarrow> nat" where
  "ascii_lower c = (if 65 \<le> c \<and> c \<le> 90 then c + 32 else c)"

definition lit_eq :: "bool \<Rightarrow> nat \<Rightarrow> nat \<Rightarrow> bool" where
  "lit_eq ci c x = (if ci then ascii_upper c = ascii_upper x else c = x)"

definition in_ranges :: "(nat \<times> nat) list \<Rightarrow> nat \<Rightarrow> bool" where
  "in_ranges rs x = list_ex (\<lambda>(a, b). a \<le> x \<and> x \<le> b) rs"

definition in_class :: "bool \<Rightarrow> (nat \<times> nat) list \<Rightarrow> nat \<Rightarrow> bool" where
  "in_class ci rs x =
    (in_ranges rs x \<or> (ci \<and> (in_ranges rs (ascii_upper x) \<or> in_ranges rs (ascii_lower x))))"

text \<open>The line terminators, which \<open>.\<close> does not match.\<close>

definition line_terminator :: "nat \<Rightarrow> bool" where
  "line_terminator x = (x = 0x000A \<or> x = 0x000D \<or> x = 0x2028 \<or> x = 0x2029)"

definition step :: "mstate \<Rightarrow> jstr \<Rightarrow> mstate" where
  "step s xs = s\<lparr>pos := Suc (pos s), rest := xs\<rparr>"

text \<open>
  The iterations of \<open>*\<close>: an iteration that consumes nothing is rejected, so the number
  of iterations is at most the length of the rest, which is the fuel.
\<close>

fun greedy :: "nat \<Rightarrow> ((mstate \<Rightarrow> mstate option) \<Rightarrow> mstate \<Rightarrow> mstate option) \<Rightarrow>
    (mstate \<Rightarrow> mstate option) \<Rightarrow> mstate \<Rightarrow> mstate option" where
  "greedy 0 f k s = k s"
| "greedy (Suc n) f k s =
    (case f (\<lambda>s'. if length (rest s') < length (rest s) then greedy n f k s' else None) s of
       Some r \<Rightarrow> Some r
     | None \<Rightarrow> k s)"

fun lazy :: "nat \<Rightarrow> ((mstate \<Rightarrow> mstate option) \<Rightarrow> mstate \<Rightarrow> mstate option) \<Rightarrow>
    (mstate \<Rightarrow> mstate option) \<Rightarrow> mstate \<Rightarrow> mstate option" where
  "lazy 0 f k s = k s"
| "lazy (Suc n) f k s =
    (case k s of
       Some r \<Rightarrow> Some r
     | None \<Rightarrow> f (\<lambda>s'. if length (rest s') < length (rest s) then lazy n f k s' else None) s)"

primrec rx_match :: "rx \<Rightarrow> bool \<Rightarrow> (mstate \<Rightarrow> mstate option) \<Rightarrow> mstate \<Rightarrow> mstate option" where
  "rx_match (Lit c) ci k s =
    (case rest s of [] \<Rightarrow> None | x # xs \<Rightarrow> if lit_eq ci c x then k (step s xs) else None)"
| "rx_match Dot ci k s =
    (case rest s of [] \<Rightarrow> None | x # xs \<Rightarrow> if line_terminator x then None else k (step s xs))"
| "rx_match (Cls rs) ci k s =
    (case rest s of [] \<Rightarrow> None | x # xs \<Rightarrow> if in_class ci rs x then k (step s xs) else None)"
| "rx_match (Seq a b) ci k s = rx_match a ci (rx_match b ci k) s"
| "rx_match (Alt a b) ci k s =
    (case rx_match a ci k s of Some r \<Rightarrow> Some r | None \<Rightarrow> rx_match b ci k s)"
| "rx_match (Opt a) ci k s =
    (case rx_match a ci (\<lambda>s'. if length (rest s') < length (rest s) then k s' else None) s of
       Some r \<Rightarrow> Some r
     | None \<Rightarrow> k s)"
| "rx_match (Star a) ci k s = greedy (length (rest s)) (rx_match a ci) k s"
| "rx_match (LazyStar a) ci k s = lazy (length (rest s)) (rx_match a ci) k s"
| "rx_match (Grp i a) ci k s =
    rx_match a ci (\<lambda>s'. k (s'\<lparr>caps := (i, take (pos s' - pos s) (rest s)) # caps s'\<rparr>)) s"
| "rx_match Bol ci k s = (if pos s = 0 then k s else None)"
| "rx_match Eps ci k s = k s"

text \<open>The derived forms: a literal string, \<open>r+\<close>, \<open>r{n}\<close>, \<open>r{0,n}\<close>, \<open>r{lo,hi}\<close>, \<open>r{n,}\<close>.\<close>

fun lit :: "jstr \<Rightarrow> rx" where
  "lit [] = Eps"
| "lit [c] = Lit c"
| "lit (c # cs) = Seq (Lit c) (lit cs)"

definition plus :: "rx \<Rightarrow> rx" where
  "plus r = Seq r (Star r)"

fun times :: "nat \<Rightarrow> rx \<Rightarrow> rx \<Rightarrow> rx" where
  "times 0 r after = after"
| "times (Suc n) r after = Seq r (times n r after)"

fun upto :: "nat \<Rightarrow> rx \<Rightarrow> rx" where
  "upto 0 r = Eps"
| "upto (Suc n) r = Opt (Seq r (upto n r))"

definition rep :: "nat \<Rightarrow> nat \<Rightarrow> rx \<Rightarrow> rx" where
  "rep lo hi r = times lo r (upto (hi - lo) r)"

definition at_least_n :: "nat \<Rightarrow> rx \<Rightarrow> rx" where
  "at_least_n n r = times n r (Star r)"

fun alts :: "rx list \<Rightarrow> rx" where
  "alts [] = Eps"
| "alts [r] = r"
| "alts (r # rs) = Alt r (alts rs)"

definition digit :: rx where
  "digit = Cls [(0x0030, 0x0039)]"

definition white_space :: "(nat \<times> nat) list" where
  "white_space = [(0x0009, 0x000D), (0x0020, 0x0020), (0x00A0, 0x00A0), (0x1680, 0x1680),
                  (0x2000, 0x200A), (0x2028, 0x2029), (0x202F, 0x202F), (0x205F, 0x205F),
                  (0x3000, 0x3000), (0xFEFF, 0xFEFF)]"

definition space :: rx where
  "space = Cls white_space"

text \<open>
  \<open>exec\<close>: the first index from which the pattern matches, with the state at the end of
  the match. \<open>search r ci i s\<close> looks from index \<open>i\<close>, where \<open>s\<close> is the text from
  \<open>i\<close> on.
\<close>

record rmatch =
  m_index :: nat
  m_end :: nat
  m_text :: jstr
  m_caps :: "(nat \<times> jstr) list"

fun search :: "rx \<Rightarrow> bool \<Rightarrow> nat \<Rightarrow> jstr \<Rightarrow> rmatch option" where
  "search r ci i [] =
    (case rx_match r ci Some \<lparr>pos = i, rest = [], caps = []\<rparr> of
       Some e \<Rightarrow> Some \<lparr>m_index = i, m_end = pos e, m_text = [], m_caps = caps e\<rparr>
     | None \<Rightarrow> None)"
| "search r ci i (c # s) =
    (case rx_match r ci Some \<lparr>pos = i, rest = c # s, caps = []\<rparr> of
       Some e \<Rightarrow> Some \<lparr>m_index = i, m_end = pos e, m_text = take (pos e - i) (c # s),
                       m_caps = caps e\<rparr>
     | None \<Rightarrow> search r ci (Suc i) s)"

definition exec :: "rx \<Rightarrow> bool \<Rightarrow> jstr \<Rightarrow> rmatch option" where
  "exec r ci text = search r ci 0 text"

definition group :: "rmatch \<Rightarrow> nat \<Rightarrow> jstr option" where
  "group m i = map_of (m_caps m) i"

text \<open>
  All the matches of a global pattern (\<open>matchAll\<close>, and \<open>match\<close> with the flag \<open>g\<close>):
  the search resumes at the end of the last match, one further after an empty match.
\<close>

function match_from :: "rx \<Rightarrow> bool \<Rightarrow> nat \<Rightarrow> jstr \<Rightarrow> rmatch list" where
  "match_from r ci i s =
    (case search r ci i s of
       None \<Rightarrow> []
     | Some m \<Rightarrow>
         (let j = (if m_end m = m_index m then m_end m + 1 else m_end m)
          in if i < j \<and> j \<le> i + length s then m # match_from r ci j (drop (j - i) s) else [m]))"
  by pat_completeness auto
termination
  by (relation "measure (\<lambda>(r, ci, i, s). length s)") auto

definition match_all :: "rx \<Rightarrow> bool \<Rightarrow> jstr \<Rightarrow> rmatch list" where
  "match_all r ci text = match_from r ci 0 text"

text \<open>\<open>replace(pattern, '')\<close> with a pattern that is not global: the first match goes.\<close>

definition remove_first :: "rx \<Rightarrow> bool \<Rightarrow> jstr \<Rightarrow> jstr" where
  "remove_first r ci text =
    (case exec r ci text of
       None \<Rightarrow> text
     | Some m \<Rightarrow> take (m_index m) text @ drop (m_end m) text)"

text \<open>\<open>trim\<close> removes white space and line terminators at both ends.\<close>

definition is_space :: "nat \<Rightarrow> bool" where
  "is_space x = in_ranges white_space x"

definition trim :: "jstr \<Rightarrow> jstr" where
  "trim s = rev (dropWhile is_space (rev (dropWhile is_space s)))"

text \<open>
  \<open>parseInt\<close> on a captured string, which has no sign and no white space: the value of
  its leading digits, and \<open>NaN\<close> (\<open>None\<close>) when it does not start with a digit. Numbers
  are integers; the model has no rounding to a double.
\<close>

definition is_digit :: "nat \<Rightarrow> bool" where
  "is_digit x = (0x0030 \<le> x \<and> x \<le> 0x0039)"

definition parseInt :: "jstr \<Rightarrow> int option" where
  "parseInt s =
    (case takeWhile is_digit s of
       [] \<Rightarrow> None
     | d # ds \<Rightarrow> Some (foldl (\<lambda>a x. 10 * a + (int x - 48)) 0 (d # ds)))"

text \<open>
  \<open>text.toLowerCase().includes(keyword.toLowerCase())\<close>, with the case of ASCII letters
  folded.
\<close>

fun is_prefix :: "jstr \<Rightarrow> jstr \<Rightarrow> bool" where
  "is_prefix [] s = True"
| "is_prefix (k # ks) [] = False"
| "is_prefix (k # ks) (c # s) = (k = c \<and> is_prefix ks s)"

fun str_includes :: "jstr \<Rightarrow> jstr \<Rightarrow> bool" where
  "str_includes [] k = (k = [])"
| "str_includes (c # s) k = (is_prefix k (c # s) \<or> str_includes s k)"

definition includes_ci :: "jstr \<Rightarrow> jstr \<Rightarrow> bool" where
  "includes_ci text k = str_includes (map ascii_lower text) (map ascii_lower k)"

section \<open>The State Extractor (state/extractor.js)\<close>

text \<open>
  The affection patterns, in the order of the source, each with its type and polarity.
  The ideographs are written as code units: \<open>0x597D 0x611F 0x5EA6\<close> is the word for
  affection that opens the first six.
\<close>

datatype ptype = Delta | Absolute

record apattern =
  a_regex :: rx
  a_type :: ptype
  a_negative :: bool

definition cls_of :: "jstr \<Rightarrow> rx" where
  "cls_of cs = Cls (map (\<lambda>c. (c, c)) cs)"

definition affection_word :: jstr where
  "affection_word = [0x597D, 0x611F, 0x5EA6]"

definition number_cap :: rx where
  "number_cap = Grp 1 (plus digit)"

definition affectionPatterns :: "apattern list" where
  "affectionPatterns =
    [\<lparr>a_regex = Seq (lit affection_word) (Seq (plus (cls_of [0x589E, 0x52A0, 0x63D0, 0x5347, 0x4E0A, 0x5347]))
                 (Seq (Opt (Lit 0x4E86)) (Seq (Star space) (Seq number_cap
                 (Seq (Star space) (Lit 0x70B9)))))),
       a_type = Delta, a_negative = False\<rparr>,
     \<lparr>a_regex = Seq (lit affection_word) (Seq (plus (cls_of [0x51CF, 0x5C11, 0x964D, 0x4F4E, 0x4E0B, 0x964D]))
                 (Seq (Opt (Lit 0x4E86)) (Seq (Star space) (Seq number_cap
                 (Seq (Star space) (Lit 0x70B9)))))),
       a_type = Delta, a_negative = True\<rparr>,
     \<lparr>a_regex = Seq (lit affection_word)
                 (Seq (alts [lit [0x53D8, 0x6210], lit [0x73B0, 0x5728, 0x662F], lit [0x8FBE, 0x5230], lit [0x4E3A]])
                 (Seq (Star space) number_cap)),
       a_type = Absolute, a_negative = False\<rparr>,
     \<lparr>a_regex = Seq (Lit 0x5BF9) (Seq (LazyStar Dot)
                 (Seq (lit (affection_word @ [0x73B0, 0x5728, 0x662F])) (Seq (Star space) number_cap))),
       a_type = Absolute, a_negative = False\<rparr>,
     \<lparr>a_regex = Seq (lit [0x597D, 0x611F]) (Seq (Opt (Lit 0x5EA6)) (Seq (Star space)
                 (Seq (cls_of [0x002B, 0xFF0B]) (Seq (Star space) number_cap)))),
       a_type = Delta, a_negative = False\<rparr>,
     \<lparr>a_regex = Seq (lit [0x597D, 0x611F]) (Seq (Opt (Lit 0x5EA6)) (Seq (Star space)
                 (Seq (cls_of [0x002D, 0xFF0D]) (Seq (Star space) number_cap)))),
       a_type = Delta, a_negative = True\<rparr>,
     \<lparr>a_regex = Seq (lit (of_ascii ''affection'')) (Seq (plus space)
                 (Seq (lit (of_ascii ''increased'')) (Seq (plus space)
                 (Seq (lit (of_ascii ''by'')) (Seq (plus space) number_cap))))),
       a_type = Delta, a_negative = False\<rparr>,
     \<lparr>a_regex = Seq (lit (of_ascii ''affection'')) (Seq (plus space)
                 (Seq (lit (of_ascii ''decreased'')) (Seq (plus space)
                 (Seq (lit (of_ascii ''by'')) (Seq (plus space) number_cap))))),
       a_type = Delta, a_negative = True\<rparr>,
     \<lparr>a_regex = Seq (lit (of_ascii ''affection'')) (Seq (plus space)
                 (Seq (lit (of_ascii ''is'')) (Seq (plus space)
                 (Seq (lit (of_ascii ''now'')) (Seq (plus space) number_cap))))),
       a_type = Absolute, a_negative = False\<rparr>,
     \<lparr>a_regex = Seq (lit (of_ascii ''affection'')) (Seq (Star space)
                 (Seq (cls_of [0x002B, 0xFF0B]) (Seq (Star space) number_cap))),
       a_type = Delta, a_negative = False\<rparr>]"

definition emotionKeywords :: "(jstr \<times> jstr list) list" where
  "emotionKeywords =
    [(of_ascii ''happy'',
      [[0x9AD8, 0x5174], [0x5F00, 0x5FC3], [0x6109, 0x5FEB], [0x5FEB, 0x4E50],
       [0x6B22, 0x559C], [0x5174, 0x594B], [0x5FAE, 0x7B11],
       [0x592A, 0x597D, 0x4E86], of_ascii ''happy'', of_ascii ''cheerful'',
       of_ascii ''joyful'', of_ascii ''smile'']),
     (of_ascii ''sad'',
      [[0x96BE, 0x8FC7], [0x4F24, 0x5FC3], [0x60B2, 0x4F24], [0x6CAE, 0x4E27],
       [0x5931, 0x843D], [0x54ED, 0x6CE3], [0x592A, 0x7CDF, 0x7CD5],
       [0x4E0D, 0x6562, 0x76F8, 0x4FE1], of_ascii ''sad'',
       of_ascii ''depressed'', of_ascii ''cry'', of_ascii ''terrible'']),
     (of_ascii ''angry'',
      [[0x751F, 0x6C14], [0x6124, 0x6012], [0x607C, 0x706B], [0x706B, 0x5927],
       [0x6012], [0x76B1, 0x7709], of_ascii ''angry'', of_ascii ''furious'',
       of_ascii ''mad'', of_ascii ''frown'']),
     (of_ascii ''excited'',
      [[0x6FC0, 0x52A8], [0x5174, 0x594B], [0x632F, 0x594B], [0x70ED, 0x60C5],
       of_ascii ''excited'', of_ascii ''enthusiastic'']),
     (of_ascii ''scared'',
      [[0x5BB3, 0x6015], [0x6050, 0x60E7], [0x60CA, 0x6050], [0x60E7, 0x6015],
       of_ascii ''scared'', of_ascii ''afraid'', of_ascii ''fearful'']),
     (of_ascii ''confused'',
      [[0x56F0, 0x60D1], [0x8FF7, 0x60D1], [0x7591, 0x60D1], [0x4E0D, 0x89E3],
       of_ascii ''confused'', of_ascii ''puzzled'']),
     (of_ascii ''calm'',
      [[0x5E73, 0x9759], [0x51B7, 0x9759], [0x6DE1, 0x5B9A], [0x5B89, 0x9759],
       of_ascii ''calm'', of_ascii ''peaceful'']),
     (of_ascii ''anxious'',
      [[0x7126, 0x8651], [0x4E0D, 0x5B89], [0x7D27, 0x5F20], [0x62C5, 0x5FC3],
       of_ascii ''anxious'', of_ascii ''worried'', of_ascii ''nervous'']),
     (of_ascii ''loving'',
      [[0x7231], [0x6DF1, 0x60C5], [0x6E29, 0x67D4], [0x4EB2, 0x5BC6],
       of_ascii ''loving'', of_ascii ''affectionate'', of_ascii ''tender''])]"

definition locationKeywords :: "jstr list" where
  "locationKeywords =
    [[0x8D70, 0x8FDB], [0x6765, 0x5230], [0x5230, 0x8FBE], [0x8FDB, 0x5165],
     [0x62B5, 0x8FBE], [0x524D, 0x5F80], [0x53BB, 0x4E86], of_ascii ''entered'',
     of_ascii ''arrived at'', of_ascii ''went to'', of_ascii ''moved to'']"

definition punctuation :: jstr where
  "punctuation = [0x3002, 0xFF0C, 0xFF01, 0xFF1F, 0xFF1B, 0x3001, 0x002C, 0x0021, 0x003F, 0x003B]"

text \<open>The pattern \<open>[punctuation].*\<close> that cuts a captured name at its first punctuation mark.\<close>

definition from_punctuation :: rx where
  "from_punctuation = Seq (cls_of punctuation) (Star Dot)"

definition chinese_numeral :: rx where
  "chinese_numeral = Cls (map (\<lambda>c. (c, c)) [0x4E00, 0x4E24, 0x4E09, 0x56DB, 0x4E94, 0x516D, 0x4E03, 0x516B, 0x4E5D, 0x5341] @ [(0x0030, 0x0039)])"

definition counter_word :: rx where
  "counter_word = cls_of [0x4E2A, 0x628A, 0x4EF6, 0x5F20, 0x672C]"

text \<open>
  The inventory patterns. The tail shared by the Chinese ones is an optional number (group
  1), an optional counter word and the name of the item (group 2), which runs to the end
  of the line.
\<close>

definition item_tail :: rx where
  "item_tail =
    Seq (Star space) (Seq (Opt (Grp 1 (plus chinese_numeral))) (Seq (Star space)
      (Seq (Opt counter_word) (Seq (Star space) (Grp 2 (plus Dot))))))"

definition inventory_add :: "rx list" where
  "inventory_add =
    [Seq (alts [lit [0x7ED9], lit [0x9012, 0x7ED9], lit [0x4EA4, 0x7ED9]]) (Seq (Opt (Lit 0x4E86))
       (Seq (alts [Lit 0x4F60, Lit 0x6211]) item_tail)),
     Seq (alts [lit [0x83B7, 0x5F97], lit [0x5F97, 0x5230], lit [0x62FF, 0x5230], lit [0x6536, 0x5230]]) (Seq (Opt (Lit 0x4E86)) item_tail),
     Seq (lit (of_ascii ''gave'')) (Seq (plus space)
       (Seq (alts [lit (of_ascii ''you''), lit (of_ascii ''me'')]) (Seq (plus space)
       (Seq (Opt (Grp 1 (plus digit))) (Seq (Star space) (Grp 2 (plus Dot)))))))]"

definition inventory_remove :: "rx list" where
  "inventory_remove =
    [Seq (alts [lit [0x62FF, 0x8D70], lit [0x53D6, 0x8D70], lit [0x6CA1, 0x6536]]) (Seq (Opt (Lit 0x4E86))
       (Seq (Opt (alts [Lit 0x4F60, lit [0x6211, 0x7684]])) item_tail)),
     Seq (alts [lit [0x5931, 0x53BB], lit [0x4E22, 0x5931], lit [0x9057, 0x5931]]) (Seq (Opt (Lit 0x4E86)) item_tail),
     Seq (lit (of_ascii ''took'')) (Seq (plus space)
       (Seq (alts [lit (of_ascii ''your''), lit (of_ascii ''my'')]) (Seq (plus space)
       (Grp 1 (plus Dot)))))]"

definition chineseNumbers :: "(nat \<times> int) list" where
  "chineseNumbers = [(0x4E00, 1), (0x4E24, 2), (0x4E8C, 2), (0x4E09, 3), (0x56DB, 4), (0x4E94, 5), (0x516D, 6), (0x4E03, 7), (0x516B, 8), (0x4E5D, 9), (0x5341, 10)]"

definition importanceKeywords :: "(int \<times> jstr list) list" where
  "importanceKeywords =
    [(1, [[0x8BF4], [0x505A], [0x53BB], of_ascii ''said'', of_ascii ''did'']),
     (2, [[0x53D1, 0x73B0], [0x627E, 0x5230], [0x9047, 0x5230],
          of_ascii ''found'', of_ascii ''discovered'']),
     (3, [[0x5766, 0x767D], [0x627F, 0x8BA4], [0x544A, 0x8BC9],
          [0x900F, 0x9732], of_ascii ''confessed'', of_ascii ''revealed'']),
     (4, [[0x5B8C, 0x6210], [0x6210, 0x529F], [0x8FBE, 0x6210],
          [0x5B9E, 0x73B0], of_ascii ''completed'', of_ascii ''achieved'']),
     (5, [[0x7B2C, 0x4E00, 0x6B21], [0x9996, 0x6B21], [0x7EC8, 0x4E8E],
          [0x53F2, 0x65E0, 0x524D, 0x4F8B], of_ascii ''first time'',
          of_ascii ''finally''])]"

text \<open>The two name patterns of \<open>extractEvents\<close>; the first has the flags \<open>gi\<close>, the second \<open>g\<close>.\<close>

definition ideographs :: rx where
  "ideographs = rep 2 4 (Cls [(0x4E00, 0x9FA5)])"

definition upper_case :: rx where
  "upper_case = Cls [(0x0041, 0x005A)]"

definition lower_case :: rx where
  "lower_case = Cls [(0x0061, 0x007A)]"

definition namePattern :: rx where
  "namePattern =
    Seq (Grp 1 (Alt (Seq upper_case (plus lower_case)) ideographs)) (Seq (Star space)
      (Seq (alts [Lit 0x548C, Lit 0x4E0E, Lit 0x8DDF, Lit 0x002C, lit (of_ascii ''and'')]) (Seq (Star space)
      (Grp 2 (Alt (Seq upper_case (plus lower_case)) ideographs)))))"

definition singleNamePattern :: rx where
  "singleNamePattern =
    Seq (Alt Bol space)
      (Seq (Grp 1 (Alt (Seq upper_case (at_least_n 2 lower_case)) ideographs))
      (Alt space (cls_of [0xFF1A, 0x003A, 0x8BF4, 0x505A])))"

text \<open>
  \<open>extractAffectionChange\<close>. The character is read through the State Manager, so the
  call may fill the cache; an error of the read is caught and gives \<open>null\<close>. Group 1 of
  every pattern is a run of digits, so \<open>parseInt\<close> gives a number; the two \<open>None\<close>
  branches below are there for totality only.
\<close>

record affection_change =
  delta :: int
  newValue :: int
  currentValue :: int

fun first_affection :: "apattern list \<Rightarrow> jstr \<Rightarrow> int \<Rightarrow> affection_change option" where
  "first_affection [] text currentAffection = None"
| "first_affection (p # ps) text currentAffection =
    (case exec (a_regex p) True text of
       None \<Rightarrow> first_affection ps text currentAffection
     | Some m \<Rightarrow>
         (case group m 1 of
            None \<Rightarrow> None
          | Some digits \<Rightarrow>
              (case parseInt digits of
                 None \<Rightarrow> None
               | Some v \<Rightarrow>
                   if a_type p = Absolute
                   then Some \<lparr>delta = v - currentAffection, newValue = v,
                              currentValue = currentAffection\<rparr>
                   else (let d = (if a_negative p then - v else v)
                         in Some \<lparr>delta = d, newValue = currentAffection + d,
                                   currentValue = currentAffection\<rparr>))))"

definition extractAffectionChange ::
    "sm_options \<Rightarrow> jstr \<Rightarrow> jstr \<Rightarrow> int \<Rightarrow> world \<Rightarrow> affection_change option \<times> world" where
  "extractAffectionChange opts characterId text now w =
    (case getCharacterState opts characterId now w of
       (Inl e, w1) \<Rightarrow> (None, w1)
     | (Inr None, w1) \<Rightarrow> (None, w1)
     | (Inr (Some character), w1) \<Rightarrow>
         (first_affection affectionPatterns text
            (case col character ''affection'' of Num n \<Rightarrow> n | _ \<Rightarrow> 0), w1))"

text \<open>
  \<open>extractEmotion\<close>: the score of an emotion is the number of matches of its keywords;
  the emotions that score are sorted by falling score, and the sort is stable, so among
  equal scores the order of the table decides.
\<close>

record emotion_result =
  emotion :: jstr
  confidence :: rat
  alternatives :: "(jstr \<times> rat) list"

definition score :: "jstr list \<Rightarrow> jstr \<Rightarrow> nat" where
  "score keywords text = sum_list (map (\<lambda>kw. length (match_all (lit kw) True text)) keywords)"

definition confidence_of :: "nat \<Rightarrow> rat" where
  "confidence_of n = min (of_nat n / 3) 1"

definition extractEmotion :: "jstr \<Rightarrow> emotion_result option" where
  "extractEmotion text =
    (let emotionScores = filter (\<lambda>(e, n). n > 0)
                           (map (\<lambda>(e, keywords). (e, score keywords text)) emotionKeywords)
     in case sort_key (\<lambda>(e, n). - int n) emotionScores of
          [] \<Rightarrow> None
        | (e, n) # others \<Rightarrow>
            Some \<lparr>emotion = e, confidence = confidence_of n,
                  alternatives = map (\<lambda>(e', n'). (e', confidence_of n')) (take 2 others)\<rparr>)"

text \<open>
  \<open>extractLocationChange\<close>: for each keyword in turn, the pattern
  \<open>keyword[le]?(.{2,10})\<close>; the capture is trimmed and cut at its first punctuation
  mark, and an empty name passes on to the next keyword.
\<close>

record location_result =
  location :: jstr
  keyword :: jstr

definition clean_name :: "jstr \<Rightarrow> jstr" where
  "clean_name s = remove_first from_punctuation False (trim s)"

fun first_location :: "jstr list \<Rightarrow> jstr \<Rightarrow> location_result option" where
  "first_location [] text = None"
| "first_location (kw # kws) text =
    (case exec (Seq (lit kw) (Seq (Opt (Cls [(0x4E86, 0x4E86)])) (Grp 1 (rep 2 10 Dot)))) True text of
       None \<Rightarrow> first_location kws text
     | Some m \<Rightarrow>
         (case group m 1 of
            None \<Rightarrow> first_location kws text
          | Some g \<Rightarrow>
              if clean_name g \<noteq> [] then Some \<lparr>location = clean_name g, keyword = kw\<rparr>
              else first_location kws text))"

definition extractLocationChange :: "jstr \<Rightarrow> location_result option" where
  "extractLocationChange text = first_location locationKeywords text"

text \<open>
  \<open>extractInventoryChanges\<close>. A quantity is \<open>parseInt\<close> of group 1 when the match
  contains \<open>gave\<close>, which is \<open>NaN\<close> (\<open>None\<close>) on a Chinese numeral, and
  \<open>_parseChineseNumber\<close> of it otherwise.
\<close>

datatype action = Add | Remove

record inventory_change =
  action :: action
  inv_name :: jstr
  inv_quantity :: "int option"
  inv_character :: jstr

definition parseChineseNumber :: "jstr \<Rightarrow> int option" where
  "parseChineseNumber str =
    (if str \<noteq> [] \<and> list_all is_digit str then parseInt str
     else case str of
            [c] \<Rightarrow> (case map_of chineseNumbers c of Some n \<Rightarrow> Some n | None \<Rightarrow> Some 1)
          | _ \<Rightarrow> Some 1)"

definition truthy_group :: "rmatch \<Rightarrow> nat \<Rightarrow> jstr option" where
  "truthy_group m i = (case group m i of Some g \<Rightarrow> if g = [] then None else Some g | None \<Rightarrow> None)"

definition add_change :: "jstr \<Rightarrow> rmatch \<Rightarrow> inventory_change list" where
  "add_change characterId m =
    (let q = (case truthy_group m 1 of
                None \<Rightarrow> Some 1
              | Some g \<Rightarrow>
                  if exec (lit (of_ascii ''gave'')) True (m_text m) \<noteq> None then parseInt g
                  else parseChineseNumber g)
     in case truthy_group m 2 of
          None \<Rightarrow> []
        | Some name \<Rightarrow>
            [\<lparr>action = Add, inv_name = clean_name name, inv_quantity = q,
              inv_character = characterId\<rparr>])"

definition remove_change :: "jstr \<Rightarrow> rmatch \<Rightarrow> inventory_change list" where
  "remove_change characterId m =
    (let english = (exec (lit (of_ascii ''took'')) True (m_text m) \<noteq> None);
         q = (if english then Some 1
              else case truthy_group m 1 of None \<Rightarrow> Some 1 | Some g \<Rightarrow> parseChineseNumber g)
     in case truthy_group m (if english then 1 else 2) of
          None \<Rightarrow> []
        | Some name \<Rightarrow>
            [\<lparr>action = Remove, inv_name = clean_name name, inv_quantity = q,
              inv_character = characterId\<rparr>])"

definition extractInventoryChanges :: "jstr \<Rightarrow> jstr \<Rightarrow> inventory_change list" where
  "extractInventoryChanges characterId text =
    concat (map (\<lambda>p. concat (map (add_change characterId) (match_all p True text))) inventory_add)
    @ concat (map (\<lambda>p. concat (map (remove_change characterId) (match_all p True text)))
                inventory_remove)"

text \<open>
  \<open>extractEvents\<close>: the importance is the highest level one of whose keywords the text
  contains; the participants are the names the two patterns capture, without repetition
  and in the order of their first occurrence.
\<close>

definition level :: "jstr \<Rightarrow> int" where
  "level text =
    foldl (\<lambda>imp (lvl, keywords). if list_ex (includes_ci text) keywords then max imp lvl else imp)
      1 importanceKeywords"

definition groups_of :: "rmatch \<Rightarrow> nat list \<Rightarrow> jstr list" where
  "groups_of m is = concat (map (\<lambda>i. case group m i of None \<Rightarrow> [] | Some g \<Rightarrow> [g]) is)"

definition unique :: "jstr list \<Rightarrow> jstr list" where
  "unique xs = foldl (\<lambda>seen x. if x \<in> set seen then seen else seen @ [x]) [] xs"

definition extractEvents :: "jstr \<Rightarrow> int \<Rightarrow> event list" where
  "extractEvents text now =
    (let imp = level text;
         names = concat (map (\<lambda>m. groups_of m [1, 2]) (match_all namePattern True text))
                 @ concat (map (\<lambda>m. groups_of m [1]) (match_all singleNamePattern False text))
     in if imp \<ge> 2 \<or> names \<noteq> []
        then [\<lparr>ev_type = of_ascii ''general'', ev_description = take 200 text,
               ev_timestamp = now, ev_importance = imp, ev_participants = unique names\<rparr>]
        else [])"

record extracted =
  x_affection :: "affection_change option"
  x_emotion :: "emotion_result option"
  x_location :: "location_result option"
  x_inventory :: "inventory_change list"
  x_events :: "event list"

definition extractAllStates ::
    "sm_options \<Rightarrow> jstr \<Rightarrow> jstr \<Rightarrow> int \<Rightarrow> world \<Rightarrow> extracted \<times> world" where
  "extractAllStates opts characterId text now w =
    (let (a, w1) = extractAffectionChange opts characterId text now w
     in (\<lparr>x_affection = a,
          x_emotion = extractEmotion text,
          x_location = extractLocationChange text,
          x_inventory = extractInventoryChanges characterId text,
          x_events = extractEvents text now\<rparr>, w1))"

section \<open>The State Integrator (state/integrator.js)\<close>

text \<open>
  The options as the constructor leaves them. The validator and the extractor that the
  constructor builds do not receive \<open>strictMode\<close>.
\<close>

record int_options =
  autoApply :: bool
  strictMode :: bool

datatype payload =
    AffectionData affection_change
  | EmotionData emotion_result
  | LocationData location_result
  | InventoryData inventory_change
  | EventData event

record outcome =
  applied :: bool
  o_errors :: "finding list"
  o_warnings :: "finding list"
  o_data :: payload

text \<open>What a \<open>catch\<close> of the integrator adds to the errors: \<open>{field, message: error.message}\<close>.\<close>

definition caught :: "string \<Rightarrow> error \<Rightarrow> finding" where
  "caught f e = \<lparr>field = f, message = Thrown e, severity = None\<rparr>"

definition processAffection ::
    "int_options \<Rightarrow> jstr \<Rightarrow> affection_change \<Rightarrow> bool \<Rightarrow> int \<Rightarrow> world \<Rightarrow> outcome \<times> world" where
  "processAffection iopts characterId affectionData dryRun now w =
    (let result = \<lparr>applied = False, o_errors = [], o_warnings = [],
                    o_data = AffectionData affectionData\<rparr>
     in case validateCharacterUpdate characterId
               \<lparr>upd_affection = Some (newValue affectionData), upd_emotion = None,
                 upd_current_location = None\<rparr> w of
          Inl e \<Rightarrow> (result\<lparr>o_errors := [caught ''affection'' e]\<rparr>, w)
        | Inr v \<Rightarrow>
            (let result1 = result\<lparr>o_errors := errors v, o_warnings := warnings v\<rparr>
             in if passed v \<and> \<not> dryRun \<and> autoApply iopts then
                  (case updateCharacterState characterId
                          [(''affection'', Num (newValue affectionData))] now w of
                     (Inl e, w1) \<Rightarrow>
                       (result1\<lparr>o_errors := errors v @ [caught ''affection'' e]\<rparr>, w1)
                   | (Inr res, w1) \<Rightarrow> (result1\<lparr>applied := True\<rparr>, w1))
                else if \<not> passed v \<and> strictMode iopts then (result1\<lparr>applied := False\<rparr>, w)
                else (result1, w)))"

definition processEmotion ::
    "int_options \<Rightarrow> jstr \<Rightarrow> emotion_result \<Rightarrow> bool \<Rightarrow> int \<Rightarrow> world \<Rightarrow> outcome \<times> world" where
  "processEmotion iopts characterId emotionData dryRun now w =
    (let result = \<lparr>applied = False, o_errors = [], o_warnings = [],
                    o_data = EmotionData emotionData\<rparr>
     in case validateCharacterUpdate characterId
               \<lparr>upd_affection = None, upd_emotion = Some (emotion emotionData),
                 upd_current_location = None\<rparr> w of
          Inl e \<Rightarrow> (result\<lparr>o_errors := [caught ''emotion'' e]\<rparr>, w)
        | Inr v \<Rightarrow>
            (let result1 = result\<lparr>o_errors := errors v, o_warnings := warnings v\<rparr>
             in if passed v \<and> \<not> dryRun \<and> autoApply iopts then
                  (case updateCharacterState characterId
                          [(''emotion'', Str (emotion emotionData))] now w of
                     (Inl e, w1) \<Rightarrow>
                       (result1\<lparr>o_errors := errors v @ [caught ''emotion'' e]\<rparr>, w1)
                   | (Inr res, w1) \<Rightarrow> (result1\<lparr>applied := True\<rparr>, w1))
                else (result1, w)))"

text \<open>
  \<open>_processLocation\<close>: the location is looked up by name and, when there is none and
  the call is neither a dry run nor without \<open>autoApply\<close>, created. The id of a location
  is a string; a falsy id skips the rest.
\<close>

definition locate :: "int_options \<Rightarrow> jstr \<Rightarrow> bool \<Rightarrow> int \<Rightarrow> js io" where
  "locate iopts name dryRun now w =
    (case db_get ''locations'' [(''name'', KStr name)] w of
       Inl e \<Rightarrow> (Inl e, w)
     | Inr (Some existingLocation) \<Rightarrow> (Inr (col existingLocation ''id''), w)
     | Inr None \<Rightarrow>
         if \<not> dryRun \<and> autoApply iopts then
           (case createLocation [(''name'', Str name), (''type'', Str (of_ascii ''unknown''))] now w of
              (Inl e, w1) \<Rightarrow> (Inl e, w1)
            | (Inr (created_id, n), w1) \<Rightarrow> (Inr created_id, w1))
         else (Inr Null, w))"

definition processLocation ::
    "int_options \<Rightarrow> jstr \<Rightarrow> location_result \<Rightarrow> bool \<Rightarrow> int \<Rightarrow> world \<Rightarrow> outcome \<times> world" where
  "processLocation iopts characterId locationData dryRun now w =
    (let result = \<lparr>applied = False, o_errors = [], o_warnings = [],
                    o_data = LocationData locationData\<rparr>
     in case locate iopts (location locationData) dryRun now w of
          (Inl e, w1) \<Rightarrow> (result\<lparr>o_errors := [caught ''location'' e]\<rparr>, w1)
        | (Inr (Str locationId), w1) \<Rightarrow>
            if locationId = [] then (result, w1)
            else
              (case validateCharacterUpdate characterId
                      \<lparr>upd_affection = None, upd_emotion = None,
                        upd_current_location = Some locationId\<rparr> w1 of
                 Inl e \<Rightarrow> (result\<lparr>o_errors := [caught ''location'' e]\<rparr>, w1)
               | Inr v \<Rightarrow>
                   (let result1 = result\<lparr>o_errors := errors v, o_warnings := warnings v\<rparr>
                    in if passed v \<and> \<not> dryRun \<and> autoApply iopts then
                         (case updateCharacterState characterId
                                 [(''current_location'', Str locationId)] now w1 of
                            (Inl e, w2) \<Rightarrow>
                              (result1\<lparr>o_errors := errors v @ [caught ''location'' e]\<rparr>, w2)
                          | (Inr res, w2) \<Rightarrow> (result1\<lparr>applied := True\<rparr>, w2))
                       else (result1, w1)))
        | (Inr other, w1) \<Rightarrow> (result, w1))"

text \<open>
  \<open>_processInventory\<close>. A removal deletes the first item of the character whose name
  contains the extracted name or is contained in it. A quantity that is \<open>NaN\<close> is
  written as \<open>Null\<close> in the object given to \<open>addInventoryItem\<close>, which reads it as
  \<open>item.quantity || 1\<close>: both are falsy.
\<close>

fun find_item :: "row list \<Rightarrow> jstr \<Rightarrow> error + row option" where
  "find_item [] name = Inr None"
| "find_item (i # items) name =
    (case col i ''item_name'' of
       Str s \<Rightarrow> if str_includes s name \<or> str_includes name s then Inr (Some i)
                else find_item items name
     | _ \<Rightarrow> Inl TypeError)"

definition item_object :: "inventory_change \<Rightarrow> row" where
  "item_object c =
    [(''item_name'', Str (inv_name c)),
     (''quantity'', case inv_quantity c of None \<Rightarrow> Null | Some q \<Rightarrow> Num q)]"

definition apply_inventory :: "jstr \<Rightarrow> inventory_change \<Rightarrow> int \<Rightarrow> bool io" where
  "apply_inventory characterId inventoryData now w =
    (case action inventoryData of
       Add \<Rightarrow>
         (case addInventoryItem characterId (item_object inventoryData) now w of
            (Inl e, w1) \<Rightarrow> (Inl e, w1)
          | (Inr res, w1) \<Rightarrow> (Inr True, w1))
     | Remove \<Rightarrow>
         (case getInventory characterId \<lparr>q_itemType = None, q_equipped = None\<rparr> w of
            (Inl e, w1) \<Rightarrow> (Inl e, w1)
          | (Inr items, w1) \<Rightarrow>
              (case find_item items (inv_name inventoryData) of
                 Inl e \<Rightarrow> (Inl e, w1)
               | Inr None \<Rightarrow> (Inr False, w1)
               | Inr (Some i) \<Rightarrow>
                   (case deleteInventoryItem (col i ''id'') w1 of
                      (Inl e, w2) \<Rightarrow> (Inl e, w2)
                    | (Inr res, w2) \<Rightarrow> (Inr True, w2)))))"

definition processInventory ::
    "int_options \<Rightarrow> jstr \<Rightarrow> inventory_change \<Rightarrow> bool \<Rightarrow> int \<Rightarrow> world \<Rightarrow> outcome \<times> world" where
  "processInventory iopts characterId inventoryData dryRun now w =
    (let result = \<lparr>applied = False, o_errors = [], o_warnings = [],
                    o_data = InventoryData inventoryData\<rparr>
     in case validateInventoryItem characterId
               \<lparr>it_name = inv_name inventoryData, it_quantity = inv_quantity inventoryData,
                 it_equipped = False, it_type = None, it_id = None\<rparr> w of
          Inl e \<Rightarrow> (result\<lparr>o_errors := [caught ''inventory'' e]\<rparr>, w)
        | Inr v \<Rightarrow>
            (let result1 = result\<lparr>o_errors := errors v, o_warnings := warnings v\<rparr>
             in if passed v \<and> \<not> dryRun \<and> autoApply iopts then
                  (case apply_inventory characterId inventoryData now w of
                     (Inl e, w1) \<Rightarrow>
                       (result1\<lparr>o_errors := errors v @ [caught ''inventory'' e]\<rparr>, w1)
                   | (Inr done, w1) \<Rightarrow> (result1\<lparr>applied := done\<rparr>, w1))
                else (result1, w)))"

definition event_object :: "event \<Rightarrow> row" where
  "event_object ev =
    [(''event_type'', Str (ev_type ev)),
     (''description'', Str (ev_description ev)),
     (''timestamp'', Num (ev_timestamp ev)),
     (''importance'', Num (ev_importance ev)),
     (''participants'', Arr (map Str (ev_participants ev)))]"

definition processEvent ::
    "int_options \<Rightarrow> event \<Rightarrow> bool \<Rightarrow> int \<Rightarrow> world \<Rightarrow> outcome \<times> world" where
  "processEvent iopts eventData dryRun now w =
    (let result = \<lparr>applied = False, o_errors = [], o_warnings = [], o_data = EventData eventData\<rparr>;
         v = validateTimelineEvent eventData now;
         result1 = result\<lparr>o_errors := errors v, o_warnings := warnings v\<rparr>
     in if passed v \<and> \<not> dryRun \<and> autoApply iopts then
          (case addTimelineEvent (event_object eventData) now w of
             (Inl e, w1) \<Rightarrow> (result1\<lparr>o_errors := errors v @ [caught ''event'' e]\<rparr>, w1)
           | (Inr res, w1) \<Rightarrow> (result1\<lparr>applied := True\<rparr>, w1))
        else (result1, w))"

text \<open>
  \<open>processMessage\<close>: the five categories in turn, each on the state the one before left.
  An applied outcome is pushed to the updates as \<open>{type, ...outcome}\<close>; the errors and
  warnings of every outcome are collected. No step throws: each catches what it calls.
\<close>

record pm_result =
  r_extracted :: extracted
  r_updates :: "(string \<times> outcome) list"
  r_errors :: "finding list"
  r_warnings :: "finding list"

definition collect :: "string \<Rightarrow> outcome \<times> world \<Rightarrow> pm_result \<Rightarrow> pm_result \<times> world" where
  "collect ty ow r =
    (r\<lparr>r_updates := r_updates r @ (if applied (fst ow) then [(ty, fst ow)] else []),
       r_errors := r_errors r @ o_errors (fst ow),
       r_warnings := r_warnings r @ o_warnings (fst ow)\<rparr>, snd ow)"

fun each_inventory ::
    "int_options \<Rightarrow> jstr \<Rightarrow> inventory_change list \<Rightarrow> bool \<Rightarrow> int \<Rightarrow> pm_result \<times> world \<Rightarrow>
     pm_result \<times> world" where
  "each_inventory iopts characterId [] dryRun now rw = rw"
| "each_inventory iopts characterId (c # cs) dryRun now rw =
    each_inventory iopts characterId cs dryRun now
      (collect ''inventory'' (processInventory iopts characterId c dryRun now (snd rw)) (fst rw))"

fun each_event ::
    "int_options \<Rightarrow> event list \<Rightarrow> bool \<Rightarrow> int \<Rightarrow> pm_result \<times> world \<Rightarrow> pm_result \<times> world" where
  "each_event iopts [] dryRun now rw = rw"
| "each_event iopts (ev # evs) dryRun now rw =
    each_event iopts evs dryRun now
      (collect ''event'' (processEvent iopts ev dryRun now (snd rw)) (fst rw))"

definition processMessage ::
    "int_options \<Rightarrow> sm_options \<Rightarrow> jstr \<Rightarrow> jstr \<Rightarrow> bool \<Rightarrow> int \<Rightarrow> world \<Rightarrow> pm_result \<times> world" where
  "processMessage iopts opts characterId messageText dryRun now w =
    (let (x, w0) = extractAllStates opts characterId messageText now w;
         rw0 = (\<lparr>r_extracted = x, r_updates = [], r_errors = [], r_warnings = []\<rparr>, w0);
         rw1 = (case x_affection x of
                  None \<Rightarrow> rw0
                | Some a \<Rightarrow>
                    collect ''affection'' (processAffection iopts characterId a dryRun now (snd rw0))
                      (fst rw0));
         rw2 = (case x_emotion x of
                  None \<Rightarrow> rw1
                | Some e \<Rightarrow>
                    collect ''emotion'' (processEmotion iopts characterId e dryRun now (snd rw1))
                      (fst rw1));
         rw3 = (case x_location x of
                  None \<Rightarrow> rw2
                | Some l \<Rightarrow>
                    collect ''location'' (processLocation iopts characterId l dryRun now (snd rw2))
                      (fst rw2));
         rw4 = each_inventory iopts characterId (x_inventory x) dryRun now rw3
     in each_event iopts (x_events x) dryRun now rw4)"

section \<open>Example states\<close>

text \<open>
  The state of the unit tests: a store whose only rows are characters, nothing cached, no
  identifier drawn. The row of a character is the row as the store holds it, its texts
  well formed.
\<close>

definition character_row :: "jstr \<Rightarrow> jstr \<Rightarrow> int \<Rightarrow> jstr \<Rightarrow> int \<Rightarrow> row" where
  "character_row i n a e t =
    [(''id'', Str (toWellFormed i)), (''name'', Str (toWellFormed n)), (''affection'', Num a),
     (''emotion'', Str (toWellFormed e)),
     (''personality'', Null), (''current_location'', Null), (''metadata'', Null),
     (''created_at'', Num t), (''updated_at'', Num t)]"

definition world_of :: "row list \<Rightarrow> world" where
  "world_of cs =
    \<lparr>store = (\<lambda>t. if t = ''characters'' then cs else []),
     cache_characters = [], cache_locations = [], cache_inventory = [],
     entropy = (\<lambda>n. n), drawn = 0\<rparr>"

definition alice :: row where
  "alice = character_row (of_ascii ''c1'') (of_ascii ''Alice'') 50 (of_ascii ''neutral'') 1000"

definition happy_alice :: row where
  "happy_alice = character_row (of_ascii ''c1'') (of_ascii ''Alice'') 50 (of_ascii ''happy'') 1000"

definition location_row :: "jstr \<Rightarrow> jstr \<Rightarrow> int \<Rightarrow> row" where
  "location_row i n t =
    [(''id'', Str (toWellFormed i)), (''name'', Str (toWellFormed n)), (''type'', Null),
     (''parent_location'', Null),
     (''connected_to'', Null), (''description'', Null), (''metadata'', Null),
     (''created_at'', Num t), (''updated_at'', Num t)]"

definition two_locations :: world where
  "two_locations =
    \<lparr>store = (\<lambda>t. if t = ''locations''
                   then [location_row (of_ascii ''l1'') (of_ascii ''library'') 1000,
                         location_row (of_ascii ''l2'') (of_ascii ''garden'') 1000]
                   else []),
     cache_characters = [], cache_locations = [], cache_inventory = [],
     entropy = (\<lambda>n. n), drawn = 0\<rparr>"

text \<open>
  The text of scenario A: the word for affection (\<open>0x597D 0x611F 0x5EA6\<close>), the word
  for "increased" (\<open>0x589E 0x52A0\<close>), the particle \<open>0x4E86\<close>, the digits \<open>10\<close> and
  the word for "points" (\<open>0x70B9\<close>).
\<close>

definition scenario_text :: jstr where
  "scenario_text = [0x597D, 0x611F, 0x5EA6, 0x589E, 0x52A0, 0x4E86, 0x0031, 0x0030, 0x70B9]"

text \<open>
  The state after \<open>createSnapshot('')\<close> at time 2000 in the state of the tests, and the
  state after restoring that snapshot at time 3000.
\<close>

definition snapshot_row :: "jstr \<Rightarrow> int \<Rightarrow> js \<Rightarrow> jstr \<Rightarrow> row" where
  "snapshot_row i t state d =
    [(''id'', Str (toWellFormed i)), (''snapshot_time'', Num t), (''state_data'', Json state),
     (''description'', Str (toWellFormed d)), (''created_at'', Num t), (''updated_at'', Num t)]"

definition dump_of :: "row list \<Rightarrow> js" where
  "dump_of cs =
    Obj [(''characters'', Arr (map Obj cs)), (''timeline'', Arr []), (''locations'', Arr []),
         (''inventory'', Arr []), (''memories'', Arr [])]"

definition snapshot_world :: "row list \<Rightarrow> jstr \<Rightarrow> row list \<Rightarrow> world" where
  "snapshot_world cs i blob =
    \<lparr>store = (\<lambda>t. if t = ''characters'' then cs
                  else if t = ''state_snapshots'' then [snapshot_row i 2000 (dump_of blob) []]
                  else []),
     cache_characters = [], cache_locations = [], cache_inventory = [],
     entropy = (\<lambda>n. n), drawn = 1\<rparr>"

text \<open>A snapshot whose only row breaks the range check of the affection.\<close>

definition broken_world :: world where
  "broken_world =
    snapshot_world [alice] (of_ascii ''s1'')
      [character_row (of_ascii ''c1'') (of_ascii ''Alice'') 500 (of_ascii ''neutral'') 1000]"

text \<open>The state of the tests with the character cached at time 1990.\<close>

definition cached_world :: world where
  "cached_world =
    (world_of [alice])\<lparr>cache_characters := [(of_ascii ''c1'', \<lparr>c_data = alice, c_timestamp = 1990\<rparr>)]\<rparr>"














section \<open>What a restore puts back\<close>

text \<open>
  \<open>through_json r\<close> is the row \<open>r\<close> as the snapshot holds it, after
  \<open>JSON.stringify\<close> and \<open>JSON.parse\<close>.
  \<open>restored now r r'\<close>: the row \<open>r'\<close> has the columns of \<open>r\<close> in their order; its two
  time stamps are \<open>now\<close>; its id is that of \<open>r\<close> when that is truthy and some truthy
  value otherwise; every other cell is the cell of \<open>r\<close> as \<open>JSON.stringify\<close> and
  \<open>JSON.parse\<close> carry it, which is the cell itself unless it is infinite.
\<close>

definition through_json :: "row \<Rightarrow> row" where
  "through_json r = map (map_prod id jsonify) r"


section \<open>Properties\<close>

subsection \<open>Well-formed text\<close>

lemma toWellFormed_Cons: "\<exists>c' s'. toWellFormed (c # s) = c' # s'"
  by (cases s) auto

lemma toWellFormed_idem: "toWellFormed (toWellFormed s) = toWellFormed s"
proof (induction s rule: toWellFormed.induct)
  case 1
  then show ?case by simp
next
  case (2 c)
  then show ?case by (simp add: high_surrogate_def low_surrogate_def)
next
  case (3 c d s)
  show ?case
  proof (cases "high_surrogate c \<and> low_surrogate d")
    case True
    with 3 show ?thesis by simp
  next
    case False
    obtain d' s' where ds: "toWellFormed (d # s) = d' # s'"
      using toWellFormed_Cons by blast
    define c' where "c' = (if high_surrogate c \<or> low_surrogate c then 0xFFFD else c)"
    have plain: "\<not> high_surrogate c'" "\<not> low_surrogate c'"
      using False by (auto simp: c'_def high_surrogate_def low_surrogate_def)
    have "(high_surrogate c \<and> low_surrogate d) = False"
      using False by simp
    then have first: "toWellFormed (c # d # s) = c' # d' # s'"
      by (simp only: toWellFormed.simps if_False ds c'_def)
    have same: "toWellFormed (d' # s') = d' # s'"
      using 3(2) [OF False] ds by simp
    have "toWellFormed (c' # d' # s') = c' # toWellFormed (d' # s')"
      using plain by simp
    with first same show ?thesis by simp
  qed
qed

lemma toWellFormed_plain:
  "list_all (\<lambda>c. c < 0xD800) s \<Longrightarrow> toWellFormed s = s"
  by (induction s rule: toWellFormed.induct) (auto simp: high_surrogate_def low_surrogate_def)

lemma hex_digit_plain: "hex_digit n < 0xD800"
  unfolding hex_digit_def by presburger

lemma hex_plain: "list_all (\<lambda>c. c < 0xD800) (hex k n)"
  by (induction k arbitrary: n) (simp_all add: hex_digit_plain)

lemma toWellFormed_uuid: "toWellFormed (uuid_string n) = uuid_string n"
  by (rule toWellFormed_plain) (simp add: uuid_string_def hex_plain hex_digit_plain)

lemmas schema_simps = schema_def characters_columns_def timeline_columns_def
  locations_columns_def inventory_columns_def memories_columns_def state_snapshots_columns_def
  validation_logs_columns_def column_names_def unknown_column_def ctype_of_def

lemmas example_simps = world_of_def alice_def happy_alice_def character_row_def of_ascii_def
  high_surrogate_def low_surrogate_def

lemmas read_simps = db_get_def db_getAll_def sql_select_def matches_def col_def get_prop_def
  key_value_def affinity_def high_surrogate_def low_surrogate_def toWellFormed_idem

subsection \<open>Validation of an affection update\<close>

text \<open>
  What the code does: the findings of \<open>_validateAffection\<close> are empty, and the update
  passes, exactly when the value is in range and the change is at most 20.
\<close>

lemma validateAffection_empty_iff:
  "validateAffection (Num c) v = [] \<longleftrightarrow> 0 \<le> v \<and> v \<le> 100 \<and> \<bar>v - c\<bar> \<le> 20"
  by (auto simp: validateAffection_def)

lemma affection_update_passes_iff:
  assumes "db_get ''characters'' [(''id'', KStr cid)] w = Inr (Some cur)"
    and "col cur ''affection'' = Num c"
    and "validateCharacterUpdate cid
           \<lparr>upd_affection = Some v, upd_emotion = None, upd_current_location = None\<rparr> w = Inr r"
  shows "passed r \<longleftrightarrow> 0 \<le> v \<and> v \<le> 100 \<and> \<bar>v - c\<bar> \<le> 20"
  using assms validateAffection_empty_iff [of c v]
  by (auto simp: validateCharacterUpdate_def buildResult_def Let_def)

text \<open>
  C1. The claim: an affection update passes if and only if the value is in [0, 100], and a
  value in range that differs from the current one by more than 20 yields a warning that
  does not block. The code at the character of the tests (affection 50) and the value 90:
  the value is in range, the only finding is the warning, and the result does not pass.
\<close>

theorem affection_warning_fails_validation:
  "validateCharacterUpdate (of_ascii ''c1'')
     \<lparr>upd_affection = Some 90, upd_emotion = None, upd_current_location = None\<rparr> (world_of [alice])
   = Inr \<lparr>passed = False, errors = [],
          warnings = [\<lparr>field = ''affection'', message = AffectionChangeTooLarge 40,
                       severity = Some WARNING\<rparr>],
          info = []\<rparr>"
  by (simp add: validateCharacterUpdate_def validateAffection_def buildResult_def
      read_simps schema_simps example_simps)

subsection \<open>Validation of an emotion update\<close>

text \<open>
  C2. The claim: a finding of severity WARNING never blocks, and a transition of the
  table of unlikely transitions passes with a warning. The code at a character whose
  emotion is \<open>happy\<close> and the new emotion \<open>sad\<close>, which is one of the ten: the only
  finding is the warning, the result does not pass, and \<open>_processEmotion\<close> with
  \<open>autoApply\<close> on and no dry run leaves the state as it was.
\<close>

theorem emotion_warning_fails_validation:
  "validateCharacterUpdate (of_ascii ''c1'')
     \<lparr>upd_affection = None, upd_emotion = Some (of_ascii ''sad''), upd_current_location = None\<rparr>
     (world_of [happy_alice])
   = Inr \<lparr>passed = False, errors = [],
          warnings = [\<lparr>field = ''emotion'',
                       message = UnlikelyTransition (of_ascii ''happy'') (of_ascii ''sad''),
                       severity = Some WARNING\<rparr>],
          info = []\<rparr>
   \<and> processEmotion \<lparr>autoApply = True, strictMode = False\<rparr> (of_ascii ''c1'')
       \<lparr>emotion = of_ascii ''sad'', confidence = 1, alternatives = []\<rparr> False 2000
       (world_of [happy_alice])
     = (\<lparr>applied = False, o_errors = [],
         o_warnings = [\<lparr>field = ''emotion'',
                         message = UnlikelyTransition (of_ascii ''happy'') (of_ascii ''sad''),
                         severity = Some WARNING\<rparr>],
         o_data = EmotionData \<lparr>emotion = of_ascii ''sad'', confidence = 1, alternatives = []\<rparr>\<rparr>,
        world_of [happy_alice])"
  by (simp add: processEmotion_def validateCharacterUpdate_def validateEmotion_def buildResult_def
      validEmotions_def invalidTransitions_def read_simps schema_simps example_simps)

subsection \<open>Dry run\<close>

lemma getCharacterState_store:
  "store (snd (getCharacterState opts cid now w)) = store w"
  by (auto simp: getCharacterState_def Let_def split: option.splits sum.splits list.splits)

lemma extractAffectionChange_store:
  "store (snd (extractAffectionChange opts cid msg now w)) = store w"
  using getCharacterState_store [of opts cid now w]
  by (auto simp: extractAffectionChange_def split: prod.splits sum.splits option.splits)

lemma extractAllStates_store:
  "store (snd (extractAllStates opts cid msg now w)) = store w"
  using extractAffectionChange_store [of opts cid msg now w]
  by (auto simp: extractAllStates_def split: prod.splits)

lemma processAffection_dry: "snd (processAffection iopts cid a True now w) = w"
  by (simp add: processAffection_def Let_def split: sum.splits)

lemma processEmotion_dry: "snd (processEmotion iopts cid e True now w) = w"
  by (simp add: processEmotion_def Let_def split: sum.splits)

lemma locate_dry: "snd (locate iopts n True now w) = w"
  by (simp add: locate_def split: sum.splits option.splits)

lemma processLocation_dry: "snd (processLocation iopts cid l True now w) = w"
proof -
  obtain r where loc: "locate iopts (location l) True now w = (r, w)"
    using locate_dry [of iopts "location l" now w]
    by (cases "locate iopts (location l) True now w") simp
  show ?thesis
  proof (cases r)
    case (Inl e)
    with loc show ?thesis by (simp add: processLocation_def)
  next
    case (Inr v)
    with loc show ?thesis
      by (cases v) (simp_all add: processLocation_def Let_def split: sum.splits)
  qed
qed

lemma processInventory_dry: "snd (processInventory iopts cid c True now w) = w"
  by (simp add: processInventory_def Let_def split: sum.splits)

lemma processEvent_dry: "snd (processEvent iopts ev True now w) = w"
  by (simp add: processEvent_def Let_def)

lemma snd_collect: "snd (collect ty ow r) = snd ow"
  by (simp add: collect_def)

lemma each_inventory_dry: "snd (each_inventory iopts cid cs True now rw) = snd rw"
  by (induction cs arbitrary: rw) (simp_all add: snd_collect processInventory_dry)

lemma each_event_dry: "snd (each_event iopts evs True now rw) = snd rw"
  by (induction evs arbitrary: rw) (simp_all add: snd_collect processEvent_dry)

text \<open>
  C5. For every character id, every message text and every starting state,
  \<open>processMessage\<close> with \<open>dryRun = true\<close> leaves every table of the store as it was:
  no character is updated, no inventory item added or removed, no timeline event
  inserted and no location created. (The cache may change: the extractor reads the
  character through it.)
\<close>

theorem dry_run_leaves_store:
  "store (snd (processMessage iopts opts cid msg True now w)) = store w"
  using extractAllStates_store [of opts cid msg now w]
  by (auto simp: processMessage_def Let_def each_event_dry each_inventory_dry snd_collect
      processAffection_dry processEmotion_dry processLocation_dry
      split: prod.splits option.splits)

theorem dry_run_leaves_store_witness:
  "store (snd (processMessage \<lparr>autoApply = True, strictMode = True\<rparr>
                 (StateManager_options None None None) (of_ascii ''c1'')
                 (of_ascii ''affection increased by 10'') True 2000 (world_of [alice])))
   = store (world_of [alice])"
  by (rule dry_run_leaves_store)

subsection \<open>strictMode\<close>

lemma processAffection_strictMode:
  "processAffection (iopts\<lparr>strictMode := b\<rparr>) cid a dryRun now w
   = processAffection iopts cid a dryRun now w"
  by (simp add: processAffection_def Let_def split: sum.splits prod.splits)

lemma processEmotion_strictMode:
  "processEmotion (iopts\<lparr>strictMode := b\<rparr>) cid e dryRun now w
   = processEmotion iopts cid e dryRun now w"
  by (simp add: processEmotion_def Let_def split: sum.splits prod.splits)

lemma locate_strictMode:
  "locate (iopts\<lparr>strictMode := b\<rparr>) n dryRun now w = locate iopts n dryRun now w"
  by (simp add: locate_def split: sum.splits prod.splits option.splits)

lemma processLocation_strictMode:
  "processLocation (iopts\<lparr>strictMode := b\<rparr>) cid l dryRun now w
   = processLocation iopts cid l dryRun now w"
  by (simp add: processLocation_def locate_strictMode Let_def
      split: sum.splits prod.splits js.splits)

lemma processInventory_strictMode:
  "processInventory (iopts\<lparr>strictMode := b\<rparr>) cid c dryRun now w
   = processInventory iopts cid c dryRun now w"
  by (simp add: processInventory_def Let_def split: sum.splits prod.splits)

lemma processEvent_strictMode:
  "processEvent (iopts\<lparr>strictMode := b\<rparr>) ev dryRun now w = processEvent iopts ev dryRun now w"
  by (simp add: processEvent_def Let_def split: sum.splits prod.splits)

lemma each_inventory_strictMode:
  "each_inventory (iopts\<lparr>strictMode := b\<rparr>) cid cs dryRun now rw
   = each_inventory iopts cid cs dryRun now rw"
  by (induction cs arbitrary: rw) (simp_all add: processInventory_strictMode)

lemma each_event_strictMode:
  "each_event (iopts\<lparr>strictMode := b\<rparr>) evs dryRun now rw = each_event iopts evs dryRun now rw"
  by (induction evs arbitrary: rw) (simp_all add: processEvent_strictMode)

lemma processMessage_strictMode:
  "processMessage (iopts\<lparr>strictMode := b\<rparr>) opts cid msg dryRun now w
   = processMessage iopts opts cid msg dryRun now w"
  by (simp add: processMessage_def processAffection_strictMode processEmotion_strictMode
      processLocation_strictMode each_inventory_strictMode each_event_strictMode Let_def
      split: prod.splits option.splits)

text \<open>
  C9. \<open>strictMode\<close> has no observable effect: for every character id, message text,
  dry-run flag, other options and starting state, an integrator with \<open>strictMode = true\<close>
  and one with \<open>strictMode = false\<close> give the same result of \<open>processMessage\<close>
  (extracted, updates, errors, warnings) and the same resulting state. The one place
  that reads it sets \<open>applied\<close> to \<open>false\<close> where it is \<open>false\<close> already.
\<close>

theorem strictMode_has_no_effect:
  "processMessage (iopts\<lparr>strictMode := True\<rparr>) opts cid msg dryRun now w
   = processMessage (iopts\<lparr>strictMode := False\<rparr>) opts cid msg dryRun now w"
  by (simp add: processMessage_strictMode)

theorem strictMode_has_no_effect_witness:
  "processMessage (\<lparr>autoApply = True, strictMode = True\<rparr>\<lparr>strictMode := True\<rparr>)
     (StateManager_options None None None) (of_ascii ''c1'')
     (of_ascii ''affection increased by 100'') False 2000 (world_of [alice])
   = processMessage (\<lparr>autoApply = True, strictMode = True\<rparr>\<lparr>strictMode := False\<rparr>)
     (StateManager_options None None None) (of_ascii ''c1'')
     (of_ascii ''affection increased by 100'') False 2000 (world_of [alice])"
  by (rule strictMode_has_no_effect)

subsection \<open>The bound of the cache buckets\<close>

text \<open>
  \<open>getCharacterState\<close> keeps its bucket within the capacity: after the \<open>set\<close> it
  deletes the first key when the size exceeds \<open>cacheSize\<close>.
\<close>

lemma length_map_set: "length (map_set k v b) \<le> Suc (length b)"
  by (induction b) auto

lemma length_map_delete_first: "length (map_delete k ((k, v) # b)) \<le> length b"
  by (simp add: map_delete_def)

lemma getCharacterState_bound:
  assumes "length (cache_characters w) \<le> cacheSize opts"
  shows "length (cache_characters (snd (getCharacterState opts cid now w))) \<le> cacheSize opts"
proof -
  have evict: "length (if length b1 > cacheSize opts
                then (case b1 of [] \<Rightarrow> b1 | (firstKey, v) # others \<Rightarrow> map_delete firstKey b1)
                else b1) \<le> cacheSize opts"
    if "length b1 \<le> Suc (cacheSize opts)" for b1 :: bucket
  proof (cases b1)
    case Nil
    then show ?thesis by simp
  next
    case (Cons kv others)
    obtain k v where kv: "kv = (k, v)" by (cases kv)
    have "length (map_delete k ((k, v) # others)) \<le> length others"
      by (rule length_map_delete_first)
    with that Cons kv show ?thesis by auto
  qed
  have grown: "length (map_set cid e (cache_characters w)) \<le> Suc (cacheSize opts)" for e
    using length_map_set [of cid e "cache_characters w"] assms by simp
  show ?thesis
    using assms evict [OF grown]
    by (auto simp: getCharacterState_def Let_def split: option.splits sum.splits
        simp del: map_set.simps)
qed

text \<open>
  C7. The claim: no bucket (characters, locations, inventory) ever holds more entries
  than the capacity. \<open>getLocation\<close> inserts into its bucket and never evicts: with a
  capacity of 1, reading two locations one after the other leaves two entries in the
  bucket of the locations.
\<close>

theorem locations_bucket_exceeds_capacity:
  "cacheSize (StateManager_options None (Some 1) None) = 1
   \<and> map fst (cache_locations (snd (getLocation (StateManager_options None (Some 1) None)
        (of_ascii ''l2'') 2001
        (snd (getLocation (StateManager_options None (Some 1) None) (of_ascii ''l1'') 2000
           two_locations)))))
     = [of_ascii ''l1'', of_ascii ''l2'']"
  by (simp add: getLocation_def StateManager_options_def two_locations_def location_row_def
      read_simps schema_simps parse_or_def of_ascii_def Let_def)

subsection \<open>Scenario A\<close>

lemmas rx_simps = exec_def group_def lit_eq_def in_class_def in_ranges_def ascii_upper_def
  ascii_lower_def line_terminator_def step_def plus_def rep_def at_least_n_def digit_def
  space_def white_space_def cls_of_def parseInt_def is_digit_def

lemmas ok_simps = db_ok_def table_names_def table_ok_def shape_ok_def check_ok_def between_def
  at_least_def cells_def fk_ok_def refers_def cell_ok_def affinity_def toWellFormed_idem

lemma match_from_None: "search r ci i s = None \<Longrightarrow> match_from r ci i s = []"
  by (subst match_from.simps) simp

lemma match_all_None: "search r ci 0 s = None \<Longrightarrow> match_all r ci s = []"
  by (simp add: match_all_def match_from_None)

lemma times_2: "times 2 r a = Seq r (Seq r a)"
  by (simp add: numeral_2_eq_2)

lemma upto_2: "upto 2 r = Opt (Seq r (Opt (Seq r Eps)))"
  by (simp add: numeral_2_eq_2)

text \<open>The five extractors on the text: the first affection pattern matches, nothing else does.\<close>

lemma scenario_affection:
  "first_affection affectionPatterns scenario_text 50
   = Some \<lparr>delta = 10, newValue = 60, currentValue = 50\<rparr>"
  by (simp add: affectionPatterns_def affection_word_def number_cap_def scenario_text_def rx_simps)

lemma scenario_emotion: "extractEmotion scenario_text = None"
  by (simp add: extractEmotion_def emotionKeywords_def score_def scenario_text_def rx_simps
      of_ascii_def match_all_None)

lemma scenario_location: "extractLocationChange scenario_text = None"
  by (simp add: extractLocationChange_def locationKeywords_def scenario_text_def rx_simps
      of_ascii_def)

lemma scenario_inventory: "extractInventoryChanges cid scenario_text = []"
  by (simp add: extractInventoryChanges_def inventory_add_def inventory_remove_def item_tail_def
      chinese_numeral_def counter_word_def scenario_text_def rx_simps of_ascii_def match_all_None)

lemma scenario_events: "extractEvents scenario_text now = []"
  by (simp add: extractEvents_def level_def importanceKeywords_def includes_ci_def
      namePattern_def singleNamePattern_def ideographs_def upper_case_def lower_case_def
      scenario_text_def rx_simps of_ascii_def match_all_None times_2 upto_2)

lemma character_row_affection: "col (character_row cid n a e t0) ''affection'' = Num a"
  by (simp add: character_row_def col_def get_prop_def)

lemma scenario_read:
  "getCharacterState (StateManager_options None None None) cid now
     (world_of [character_row cid n 50 e t0])
   = (Inr (Some (character_row cid n 50 e t0)),
      (world_of [character_row cid n 50 e t0])
        \<lparr>cache_characters :=
           [(cid, \<lparr>c_data = character_row cid n 50 e t0, c_timestamp = now\<rparr>)]\<rparr>)"
  by (simp add: getCharacterState_def StateManager_options_def world_of_def read_simps
      schema_simps character_row_def map_delete_def)

lemma scenario_extract:
  "extractAllStates (StateManager_options None None None) cid scenario_text now
     (world_of [character_row cid n 50 e t0])
   = (\<lparr>x_affection = Some \<lparr>delta = 10, newValue = 60, currentValue = 50\<rparr>,
       x_emotion = None, x_location = None, x_inventory = [], x_events = []\<rparr>,
      (world_of [character_row cid n 50 e t0])
        \<lparr>cache_characters :=
           [(cid, \<lparr>c_data = character_row cid n 50 e t0, c_timestamp = now\<rparr>)]\<rparr>)"
  by (simp add: extractAllStates_def extractAffectionChange_def scenario_read scenario_affection
      scenario_emotion scenario_location scenario_inventory scenario_events
      character_row_affection)

lemma scenario_apply:
  "processAffection \<lparr>autoApply = True, strictMode = True\<rparr> cid
     \<lparr>delta = 10, newValue = 60, currentValue = 50\<rparr> False now
     ((world_of [character_row cid n 50 e t0])
        \<lparr>cache_characters :=
           [(cid, \<lparr>c_data = character_row cid n 50 e t0, c_timestamp = now\<rparr>)]\<rparr>)
   = (\<lparr>applied = True, o_errors = [], o_warnings = [],
       o_data = AffectionData \<lparr>delta = 10, newValue = 60, currentValue = 50\<rparr>\<rparr>,
      world_of [put ''updated_at'' (Num now) (character_row cid n 60 e t0)])"
  by (simp add: processAffection_def validateCharacterUpdate_def validateAffection_def
      buildResult_def updateCharacterState_def stringify_field_def db_update_def sql_update_def
      assign_def map_delete_def read_simps schema_simps ok_simps world_of_def character_row_def
      fun_eq_iff)

lemma scenario_read_back:
  "fst (getCharacterState (StateManager_options None None None) cid later
          (world_of [put ''updated_at'' (Num now) (character_row cid n 60 e t0)]))
   = Inr (Some (put ''updated_at'' (Num now) (character_row cid n 60 e t0)))"
  by (simp add: getCharacterState_def StateManager_options_def world_of_def read_simps
      schema_simps character_row_def map_delete_def)

text \<open>
  C8. Scenario A, for the state of the tests with any id, name, emotion and time stamps
  of the character: with a stored affection of 50, \<open>processMessage\<close> on the text
  extracts \<open>{delta: 10, newValue: 60}\<close> (with \<open>currentValue: 50\<close>), applies the
  one update without error or warning, and leaves the character with the affection 60
  in the store, which is what the next \<open>getCharacterState\<close> returns.
\<close>

theorem scenario_A:
  "x_affection (r_extracted (fst (processMessage \<lparr>autoApply = True, strictMode = True\<rparr>
       (StateManager_options None None None) cid scenario_text False now
       (world_of [character_row cid n 50 e t0]))))
     = Some \<lparr>delta = 10, newValue = 60, currentValue = 50\<rparr>
   \<and> map fst (r_updates (fst (processMessage \<lparr>autoApply = True, strictMode = True\<rparr>
       (StateManager_options None None None) cid scenario_text False now
       (world_of [character_row cid n 50 e t0]))))
     = [''affection'']
   \<and> r_errors (fst (processMessage \<lparr>autoApply = True, strictMode = True\<rparr>
       (StateManager_options None None None) cid scenario_text False now
       (world_of [character_row cid n 50 e t0]))) = []
   \<and> r_warnings (fst (processMessage \<lparr>autoApply = True, strictMode = True\<rparr>
       (StateManager_options None None None) cid scenario_text False now
       (world_of [character_row cid n 50 e t0]))) = []
   \<and> store (snd (processMessage \<lparr>autoApply = True, strictMode = True\<rparr>
       (StateManager_options None None None) cid scenario_text False now
       (world_of [character_row cid n 50 e t0]))) ''characters''
     = [put ''updated_at'' (Num now) (character_row cid n 60 e t0)]
   \<and> col (put ''updated_at'' (Num now) (character_row cid n 60 e t0)) ''affection'' = Num 60
   \<and> fst (getCharacterState (StateManager_options None None None) cid later
       (snd (processMessage \<lparr>autoApply = True, strictMode = True\<rparr>
       (StateManager_options None None None) cid scenario_text False now
       (world_of [character_row cid n 50 e t0]))))
     = Inr (Some (put ''updated_at'' (Num now) (character_row cid n 60 e t0)))"
  by (simp add: processMessage_def scenario_extract scenario_apply collect_def scenario_read_back)
     (simp add: world_of_def character_row_def col_def get_prop_def)

theorem scenario_A_witness:
  "x_affection (r_extracted (fst (processMessage \<lparr>autoApply = True, strictMode = True\<rparr>
       (StateManager_options None None None) (of_ascii ''c1'') scenario_text False 2000
       (world_of [alice]))))
     = Some \<lparr>delta = 10, newValue = 60, currentValue = 50\<rparr>
   \<and> col (hd (store (snd (processMessage \<lparr>autoApply = True, strictMode = True\<rparr>
       (StateManager_options None None None) (of_ascii ''c1'') scenario_text False 2000
       (world_of [alice]))) ''characters'')) ''affection'' = Num 60"
  using scenario_A [of "of_ascii ''c1''" 2000 "of_ascii ''Alice''" "of_ascii ''neutral''" 1000]
  by (simp add: alice_def)

subsection \<open>Rows and objects\<close>

lemma get_prop_put: "get_prop (put k v r) c = (if c = k then Some v else get_prop r c)"
  by (induction r) (auto simp: get_prop_def)

lemma keys_put: "fst ` set (put k v r) = insert k (fst ` set r)"
  by (induction r) force+

lemma get_prop_key: "get_prop r k = Some v \<Longrightarrow> k \<in> fst ` set r"
  by (auto simp: get_prop_def dest!: map_of_SomeD intro: rev_image_eqI)




lemma unknown_column_None:
  "unknown_column cols ks = None \<longleftrightarrow> set ks \<subseteq> set (column_names cols)"
  by (auto simp: unknown_column_def find_None_iff)

lemma schema_columns:
  assumes "schema t = Some cols"
  shows "distinct (column_names cols)" "''id'' \<in> set (column_names cols)"
    "''created_at'' \<in> set (column_names cols)" "''updated_at'' \<in> set (column_names cols)"
    "ctype_of cols ''id'' = TText" "ctype_of cols ''created_at'' = TInteger"
    "ctype_of cols ''updated_at'' = TInteger"
  using assms by (auto simp: schema_simps split: if_splits)

lemma db_ok_shape:
  assumes "db_ok d" "schema t = Some cols" "t \<in> set table_names" "r \<in> set (d t)"
  shows "shape_ok cols r"
  using assms by (auto simp: db_ok_def table_ok_def list_all_iff)

subsection \<open>Identifiers\<close>

lemma uuid_string_nonempty: "uuid_string n \<noteq> []"
  by (simp add: uuid_string_def)

lemma store_id_or_uuid: "store (snd (id_or_uuid v w)) = store w"
  by (simp add: id_or_uuid_def randomUUID_def split: prod.splits)

lemma id_or_uuid_truthy: "truthy v \<Longrightarrow> id_or_uuid (Some v) w = (v, w)"
  by (simp add: id_or_uuid_def truthy_opt_def or_null_def)

lemma id_or_uuid_falsy:
  "\<not> truthy_opt v \<Longrightarrow>
   id_or_uuid v w = (Str (uuid_string (entropy w (drawn w))), w\<lparr>drawn := Suc (drawn w)\<rparr>)"
  by (simp add: id_or_uuid_def randomUUID_def)

subsection \<open>What an insert stores\<close>

lemma col_stored_row:
  "c \<in> set (column_names cols) \<Longrightarrow> get_prop record c = Some v \<Longrightarrow>
   col (stored_row cols record) c = affinity (ctype_of cols c) v"
  by (induction cols)
    (auto simp: stored_row_def col_def get_prop_def column_names_def ctype_of_def)

lemma sql_insert_Inr:
  assumes "sql_insert d t record = Inr d'"
  obtains cols where "schema t = Some cols" "set (map fst record) \<subseteq> set (column_names cols)"
    "d' = d(t := d t @ [stored_row cols record])" "db_ok d'"
proof -
  from assms obtain cols where c: "schema t = Some cols"
    by (auto simp: sql_insert_def split: option.splits)
  from assms c have u: "unknown_column cols (map fst record) = None"
    by (auto simp: sql_insert_def split: option.splits)
  from assms c u have "d' = d(t := d t @ [stored_row cols record])" "db_ok d'"
    by (auto simp: sql_insert_def Let_def split: if_splits)
  with that [of cols] c u show ?thesis by (simp add: unknown_column_None)
qed

lemma db_insert_Inr:
  assumes "db_insert t data now w = (Inr (idv, n), w')"
  obtains cols where "schema t = Some cols"
    "idv = fst (id_or_uuid (get_prop data ''id'') w)"
    "set (map fst (put ''updated_at'' (Num now) (put ''created_at'' (Num now) (put ''id'' idv data))))
       \<subseteq> set (column_names cols)"
    "store w' = (store w)(t := store w t @ [stored_row cols
        (put ''updated_at'' (Num now) (put ''created_at'' (Num now) (put ''id'' idv data)))])"
    "db_ok (store w')"
proof -
  obtain i w1 where iw: "id_or_uuid (get_prop data ''id'') w = (i, w1)"
    by (cases "id_or_uuid (get_prop data ''id'') w")
  have st: "store w1 = store w"
    using store_id_or_uuid [of "get_prop data ''id''" w] iw by simp
  let ?rec = "put ''updated_at'' (Num now) (put ''created_at'' (Num now) (put ''id'' i data))"
  have "db_insert t data now w =
          (case sql_insert (store w1) t ?rec of
             Inl e \<Rightarrow> (Inl e, w1)
           | Inr d' \<Rightarrow> (Inr (i, 1), w1\<lparr>store := d'\<rparr>))"
    by (simp add: db_insert_def iw Let_def)
  with assms obtain d' where ins: "sql_insert (store w1) t ?rec = Inr d'"
    and res: "idv = i" "w' = w1\<lparr>store := d'\<rparr>"
    by (cases "sql_insert (store w1) t ?rec") auto
  from ins obtain cols where "schema t = Some cols" "set (map fst ?rec) \<subseteq> set (column_names cols)"
    "d' = (store w1)(t := store w1 t @ [stored_row cols ?rec])" "db_ok d'"
    by (rule sql_insert_Inr)
  with that [of cols] iw res st show ?thesis by simp
qed

text \<open>
  C10, as the code has it. Whenever \<open>insert\<close> succeeds, the table gains exactly one row, at
  the end. Its \<open>created_at\<close> and \<open>updated_at\<close> are the clock value of the insertion,
  whatever the caller supplied for them. The id that \<open>insert\<close> returns is the supplied id
  when that is truthy, and a fresh UUID when it is missing or falsy (\<open>null\<close>, \<open>0\<close>,
  \<open>NaN\<close>, the empty string); the row holds that id as the column converts it, so as it
  is when it is well-formed text. Every other supplied field is stored as its column
  converts it (for the conversions that \<open>exact\<close> covers), and so unchanged when the column
  keeps it: \<open>null\<close>, an integer in an \<open>INTEGER\<close> or \<open>BOOLEAN\<close> column, well-formed text
  in a \<open>TEXT\<close> column.
\<close>

theorem insert_stamps_row:
  assumes "db_insert t data now w = (Inr (idv, n), w')"
  shows "\<exists>cols stored. schema t = Some cols
           \<and> store w' t = store w t @ [stored]
           \<and> col stored ''created_at'' = Num now
           \<and> col stored ''updated_at'' = Num now
           \<and> (\<forall>v. get_prop data ''id'' = Some v \<and> truthy v \<longrightarrow> idv = v)
           \<and> (\<not> truthy_opt (get_prop data ''id'')
                \<longrightarrow> idv = Str (uuid_string (entropy w (drawn w))))
           \<and> (exact TText idv \<longrightarrow> col stored ''id'' = affinity TText idv)
           \<and> (kept TText idv \<longrightarrow> col stored ''id'' = idv)
           \<and> (\<forall>c v. get_prop data c = Some v \<and> c \<noteq> ''id'' \<and> c \<noteq> ''created_at''
                  \<and> c \<noteq> ''updated_at'' \<and> exact (ctype_of cols c) v
                  \<longrightarrow> col stored c = affinity (ctype_of cols c) v)
           \<and> (\<forall>c v. get_prop data c = Some v \<and> c \<noteq> ''id'' \<and> c \<noteq> ''created_at''
                  \<and> c \<noteq> ''updated_at'' \<and> kept (ctype_of cols c) v
                  \<longrightarrow> col stored c = v)"
proof -
  let ?rec = "put ''updated_at'' (Num now) (put ''created_at'' (Num now) (put ''id'' idv data))"
  from assms obtain cols where cols: "schema t = Some cols"
    and idv: "idv = fst (id_or_uuid (get_prop data ''id'') w)"
    and keys: "set (map fst ?rec) \<subseteq> set (column_names cols)"
    and st: "store w' = (store w)(t := store w t @ [stored_row cols ?rec])"
    by (rule db_insert_Inr)
  let ?s = "stored_row cols ?rec"
  have known: "c \<in> set (column_names cols)" if "get_prop ?rec c = Some v" for c v
  proof -
    from that have "c \<in> fst ` set ?rec" by (rule get_prop_key)
    with keys show ?thesis by auto
  qed
  have read: "col ?s c = affinity (ctype_of cols c) v" if "get_prop ?rec c = Some v" for c v
    using col_stored_row [OF known [OF that] that] .
  have a1: "store w' t = store w t @ [?s]" using st by simp
  have "col ?s ''created_at'' = affinity (ctype_of cols ''created_at'') (Num now)"
    by (rule read) (simp add: get_prop_put)
  then have a2: "col ?s ''created_at'' = Num now"
    by (simp add: schema_columns(6) [OF cols] affinity_def)
  have "col ?s ''updated_at'' = affinity (ctype_of cols ''updated_at'') (Num now)"
    by (rule read) (simp add: get_prop_put)
  then have a3: "col ?s ''updated_at'' = Num now"
    by (simp add: schema_columns(7) [OF cols] affinity_def)
  have "col ?s ''id'' = affinity (ctype_of cols ''id'') idv"
    by (rule read) (simp add: get_prop_put)
  then have a4: "col ?s ''id'' = affinity TText idv"
    by (simp add: schema_columns(5) [OF cols])
  have a5: "idv = v" if "get_prop data ''id'' = Some v" "truthy v" for v
    using that idv by (simp add: id_or_uuid_truthy)
  have a6: "idv = Str (uuid_string (entropy w (drawn w)))"
    if "\<not> truthy_opt (get_prop data ''id'')"
    using that idv by (simp add: id_or_uuid_falsy)
  have a7: "col ?s c = affinity (ctype_of cols c) v"
    if "get_prop data c = Some v" "c \<noteq> ''id''" "c \<noteq> ''created_at''" "c \<noteq> ''updated_at''" for c v
    by (rule read) (simp add: get_prop_put that)
  have a8: "col ?s ''id'' = idv" if "kept TText idv"
    using a4 that by (simp add: kept_def)
  have a9: "col ?s c = v"
    if "get_prop data c = Some v" "c \<noteq> ''id''" "c \<noteq> ''created_at''" "c \<noteq> ''updated_at''"
      "kept (ctype_of cols c) v" for c v
    using a7 [OF that(1-4)] that(5) by (simp add: kept_def)
  show ?thesis
    by (rule exI [of _ cols], rule exI [of _ ?s]) (use cols a1 a2 a3 a4 a5 a6 a7 a8 a9 in blast)
qed

lemmas write_simps = db_insert_def id_or_uuid_def randomUUID_def truthy_opt_def or_null_def
  uuid_string_nonempty toWellFormed_uuid sql_insert_def stored_row_def

lemmas text_simps = integer_text_def sqlite_space_def ascii_digit_def real_text_def decimal.simps

lemma example_insert:
  "db_insert ''characters''
     [(''name'', Str (of_ascii ''Alice'')), (''affection'', Str (of_ascii ''50'')),
      (''emotion'', Num 5), (''created_at'', Num 1)]
     2000 (world_of [])
   = (Inr (Str (uuid_string 0), 1),
      (world_of [character_row (uuid_string 0) (of_ascii ''Alice'') 50 (of_ascii ''5.0'') 2000])
        \<lparr>drawn := 1\<rparr>)"
  by (simp add: write_simps text_simps schema_simps ok_simps read_simps example_simps fun_eq_iff)

text \<open>
  An insertion into the empty store at time 2000 of a character without an id, with a
  supplied \<open>created_at\<close> of 1, the text \<open>50\<close> as affection and the number 5 as emotion:
  the row is stamped 2000, has a fresh id, keeps its name, and holds the number 50 and the
  text \<open>5.0\<close>.
\<close>

theorem insert_stamps_row_witness:
  "\<exists>stored.
     store (snd (db_insert ''characters''
        [(''name'', Str (of_ascii ''Alice'')), (''affection'', Str (of_ascii ''50'')),
         (''emotion'', Num 5), (''created_at'', Num 1)]
        2000 (world_of []))) ''characters''
       = store (world_of []) ''characters'' @ [stored]
     \<and> col stored ''id'' = Str (uuid_string 0)
     \<and> col stored ''created_at'' = Num 2000
     \<and> col stored ''updated_at'' = Num 2000
     \<and> col stored ''name'' = Str (of_ascii ''Alice'')
     \<and> col stored ''affection'' = Num 50
     \<and> col stored ''emotion'' = Str (of_ascii ''5.0'')"
proof -
  let ?data = "[(''name'', Str (of_ascii ''Alice'')), (''affection'', Str (of_ascii ''50'')),
                (''emotion'', Num 5), (''created_at'', Num 1)]"
  from insert_stamps_row [OF example_insert]
  obtain cols stored where cols: "schema ''characters'' = Some cols"
    and row: "store ((world_of [character_row (uuid_string 0) (of_ascii ''Alice'') 50
                  (of_ascii ''5.0'') 2000])\<lparr>drawn := 1\<rparr>) ''characters''
              = store (world_of []) ''characters'' @ [stored]"
    and stamps: "col stored ''created_at'' = Num 2000" "col stored ''updated_at'' = Num 2000"
    and ident: "kept TText (Str (uuid_string 0)) \<longrightarrow> col stored ''id'' = Str (uuid_string 0)"
    and conv: "\<forall>c v. get_prop ?data c = Some v \<and> c \<noteq> ''id'' \<and> c \<noteq> ''created_at''
         \<and> c \<noteq> ''updated_at'' \<and> exact (ctype_of cols c) v
         \<longrightarrow> col stored c = affinity (ctype_of cols c) v"
    by blast
  from cols have c: "cols = characters_columns" by (simp add: schema_def)
  have "kept TText (Str (uuid_string 0))"
    by (simp add: kept_def exact_def affinity_def toWellFormed_uuid)
  with ident have i: "col stored ''id'' = Str (uuid_string 0)" by simp
  from conv [rule_format, of "''name''" "Str (of_ascii ''Alice'')"]
  have n: "col stored ''name'' = Str (of_ascii ''Alice'')"
    by (simp add: c get_prop_def exact_def affinity_def schema_simps example_simps)
  from conv [rule_format, of "''affection''" "Str (of_ascii ''50'')"]
  have a: "col stored ''affection'' = Num 50"
    by (simp add: c get_prop_def exact_def affinity_def schema_simps example_simps text_simps)
  from conv [rule_format, of "''emotion''" "Num 5"]
  have e: "col stored ''emotion'' = Str (of_ascii ''5.0'')"
    by (simp add: c get_prop_def exact_def affinity_def schema_simps example_simps text_simps)
  from row stamps i n a e show ?thesis
    by (intro exI [of _ stored]) (simp add: example_insert)
qed

text \<open>
  C10 as the claim states it says that a supplied id and every other supplied field are
  stored unchanged. A location inserted with the id \<open>''\<close> (the empty string, which
  \<open>data.id || randomUUID()\<close> takes for absent) is stored under a fresh UUID; a character
  inserted with the number 5 as its name holds the text \<open>5.0\<close>.
\<close>

theorem insert_changes_id_and_number:
  "fst (db_insert ''locations'' [(''id'', Str []), (''name'', Str (of_ascii ''library''))] 2000
          (world_of []))
     = Inr (Str (uuid_string 0), 1)
   \<and> store (snd (db_insert ''locations'' [(''id'', Str []), (''name'', Str (of_ascii ''library''))]
                    2000 (world_of []))) ''locations''
     = [location_row (uuid_string 0) (of_ascii ''library'') 2000]
   \<and> col (location_row (uuid_string 0) (of_ascii ''library'') 2000) ''id'' = Str (uuid_string 0)
   \<and> Str (uuid_string 0) \<noteq> Str []
   \<and> db_insert ''characters'' [(''id'', Str (of_ascii ''c1'')), (''name'', Num 5)] 2000
         (world_of [])
     = (Inr (Str (of_ascii ''c1''), 1),
        world_of [character_row (of_ascii ''c1'') (of_ascii ''5.0'') 0 (of_ascii ''neutral'') 2000])
   \<and> col (character_row (of_ascii ''c1'') (of_ascii ''5.0'') 0 (of_ascii ''neutral'') 2000) ''name''
     = Str (of_ascii ''5.0'')
   \<and> Str (of_ascii ''5.0'') \<noteq> Num 5"
  by (simp add: write_simps text_simps schema_simps ok_simps read_simps example_simps
      location_row_def fun_eq_iff)

subsection \<open>Cache coherency\<close>

lemma map_of_map_delete: "map_of (map_delete k b) k = None"
  by (induction b) (auto simp: map_delete_def)

lemma getCharacterState_miss:
  assumes "map_of (cache_characters w) cid = None"
  shows "fst (getCharacterState opts cid later w) = db_get ''characters'' [(''id'', KStr cid)] w"
  using assms
  by (auto simp: getCharacterState_def Let_def split: sum.splits option.splits)

lemma updateCharacterState_Inr:
  assumes "updateCharacterState cid updates now w = (Inr n, w1)"
  obtains d' where
    "sql_update (store w) ''characters'' [(''id'', KStr cid)]
       (put ''updated_at'' (Num now)
          (stringify_field ''metadata'' (stringify_field ''personality'' updates))) = Inr (d', n)"
    "w1 = w\<lparr>store := d', cache_characters := map_delete cid (cache_characters w)\<rparr>"
proof -
  let ?U = "put ''updated_at'' (Num now)
          (stringify_field ''metadata'' (stringify_field ''personality'' updates))"
  show ?thesis
  proof (cases "sql_update (store w) ''characters'' [(''id'', KStr cid)] ?U")
    case (Inl e)
    with assms show ?thesis
      by (simp add: updateCharacterState_def db_update_def Let_def)
  next
    case (Inr p)
    obtain d' m where p: "p = (d', m)" by (cases p)
    with Inr assms have "m = n"
      "w1 = w\<lparr>store := d', cache_characters := map_delete cid (cache_characters w)\<rparr>"
      by (auto simp: updateCharacterState_def db_update_def Let_def)
    with Inr p that [of d'] show ?thesis by simp
  qed
qed

lemma map_of_assign:
  "map_of (assign cols U r) c
   = map_option (\<lambda>v. case get_prop U c of None \<Rightarrow> v
                      | Some v' \<Rightarrow> affinity (ctype_of cols c) v') (map_of r c)"
  by (induction r) (auto simp: assign_def split: option.splits)

lemma col_assign_other: "get_prop U c = None \<Longrightarrow> col (assign cols U r) c = col r c"
  by (simp add: col_def get_prop_def map_of_assign split: option.splits)

lemma col_assign_set:
  "get_prop U c = Some v \<Longrightarrow> c \<in> set (map fst r) \<Longrightarrow>
   col (assign cols U r) c = affinity (ctype_of cols c) v"
  by (auto simp: col_def get_prop_def map_of_assign map_of_eq_None_iff split: option.splits)

lemma keys_assign: "map fst (assign cols U r) = map fst r"
  by (induction r) (auto simp: assign_def)

lemma filter_map_update:
  assumes "\<And>x. P (g x) = P x"
  shows "filter P (map (\<lambda>x. if P x then g x else x) xs) = map g (filter P xs)"
  using assms by (induction xs) auto

lemma keys_stringify_field: "fst ` set (stringify_field k r) = fst ` set r"
proof (cases "get_prop r k")
  case None
  then show ?thesis by (simp add: stringify_field_def)
next
  case (Some v)
  then have "k \<in> fst ` set r" by (rule get_prop_key)
  with Some show ?thesis by (auto simp: stringify_field_def keys_put)
qed

lemma sql_update_Inr:
  assumes "sql_update d t wh U = Inr (d', n)"
  obtains cols where "schema t = Some cols" "set (map fst U) \<subseteq> set (column_names cols)"
    "d' = d(t := map (\<lambda>r. if matches cols wh r then assign cols U r else r) (d t))" "db_ok d'"
proof -
  from assms obtain cols where c: "schema t = Some cols"
    by (auto simp: sql_update_def split: option.splits if_splits)
  from assms c have u: "unknown_column cols (map fst U @ map fst wh) = None"
    by (auto simp: sql_update_def split: option.splits if_splits)
  from assms c u
  have "d' = d(t := map (\<lambda>r. if matches cols wh r then assign cols U r else r) (d t))" "db_ok d'"
    by (auto simp: sql_update_def Let_def split: if_splits)
  with that [of cols] c u show ?thesis by (simp add: unknown_column_None)
qed

text \<open>
  C6. For every character id, every update and every state, cached or not: after
  \<open>updateCharacterState\<close> succeeds, the next \<open>getCharacterState\<close> for that id, at any later
  clock value (so also inside the TTL of an entry cached before the update) and with any
  options, returns what the store holds for that id. When the character existed and the
  update does not assign the id, that is a row which holds, in every column the update
  assigns (the stringified \<open>personality\<close> and \<open>metadata\<close> and the new \<open>updated_at\<close>
  included), the assigned value as the column converts it, so the value itself when the
  column keeps it, and in every other column what the row held before.
\<close>

theorem read_after_update:
  assumes "updateCharacterState cid updates now w = (Inr n, w1)"
  shows "fst (getCharacterState opts cid later w1) = db_get ''characters'' [(''id'', KStr cid)] w1
       \<and> (\<forall>old. db_get ''characters'' [(''id'', KStr cid)] w = Inr (Some old)
                \<and> ''id'' \<notin> set (map fst updates)
             \<longrightarrow> (\<exists>new. fst (getCharacterState opts cid later w1) = Inr (Some new)
                   \<and> (\<forall>k v. get_prop (put ''updated_at'' (Num now)
                               (stringify_field ''metadata''
                                 (stringify_field ''personality'' updates))) k = Some v
                             \<and> exact (ctype_of characters_columns k) v
                          \<longrightarrow> col new k = affinity (ctype_of characters_columns k) v)
                   \<and> (\<forall>k v. get_prop (put ''updated_at'' (Num now)
                               (stringify_field ''metadata''
                                 (stringify_field ''personality'' updates))) k = Some v
                             \<and> kept (ctype_of characters_columns k) v
                          \<longrightarrow> col new k = v)
                   \<and> (\<forall>k. get_prop (put ''updated_at'' (Num now)
                               (stringify_field ''metadata''
                                 (stringify_field ''personality'' updates))) k = None
                          \<longrightarrow> col new k = col old k)))"
proof -
  let ?U = "put ''updated_at'' (Num now)
          (stringify_field ''metadata'' (stringify_field ''personality'' updates))"
  let ?wh = "[(''id'', KStr cid)]"
  from assms obtain d' where upd: "sql_update (store w) ''characters'' ?wh ?U = Inr (d', n)"
    and w1: "w1 = w\<lparr>store := d', cache_characters := map_delete cid (cache_characters w)\<rparr>"
    by (rule updateCharacterState_Inr)
  have miss: "map_of (cache_characters w1) cid = None"
    using w1 by (simp add: map_of_map_delete)
  have fresh: "fst (getCharacterState opts cid later w1) = db_get ''characters'' ?wh w1"
    using miss by (rule getCharacterState_miss)
  from upd obtain cols where cols: "schema ''characters'' = Some cols"
    and keys: "set (map fst ?U) \<subseteq> set (column_names cols)"
    and d': "d' = (store w)(''characters'' :=
               map (\<lambda>r. if matches cols ?wh r then assign cols ?U r else r)
                 (store w ''characters''))"
    and ok: "db_ok d'"
    by (rule sql_update_Inr)
  from cols have cc: "cols = characters_columns" by (simp add: schema_def)
  have "\<exists>new. fst (getCharacterState opts cid later w1) = Inr (Some new)
          \<and> (\<forall>k v. get_prop ?U k = Some v \<and> exact (ctype_of characters_columns k) v
                 \<longrightarrow> col new k = affinity (ctype_of characters_columns k) v)
          \<and> (\<forall>k v. get_prop ?U k = Some v \<and> kept (ctype_of characters_columns k) v
                 \<longrightarrow> col new k = v)
          \<and> (\<forall>k. get_prop ?U k = None \<longrightarrow> col new k = col old k)"
    if old: "db_get ''characters'' ?wh w = Inr (Some old)"
      and noid: "''id'' \<notin> set (map fst updates)" for old
  proof -
    have "''id'' \<notin> set (map fst ?U)"
      using noid by (simp add: keys_put keys_stringify_field)
    then have idU: "get_prop ?U ''id'' = None"
      by (simp add: get_prop_def map_of_eq_None_iff)
    have same: "matches cols ?wh (assign cols ?U r) = matches cols ?wh r" for r
      using col_assign_other [OF idU, of cols r] by (simp add: matches_def)
    have rows: "filter (matches cols ?wh) (store w1 ''characters'')
                = map (assign cols ?U) (filter (matches cols ?wh) (store w ''characters''))"
      using w1 d' filter_map_update [of "matches cols ?wh" "assign cols ?U", OF same] by simp
    from old obtain others
      where olds: "filter (matches cols ?wh) (store w ''characters'') = old # others"
      by (auto simp: db_get_def sql_select_def cols unknown_column_None
          split: option.splits list.splits if_splits)
    have new: "db_get ''characters'' ?wh w1 = Inr (Some (assign cols ?U old))"
      using old rows olds
      by (auto simp: db_get_def sql_select_def cols split: option.splits list.splits)
    have "assign cols ?U old \<in> set (d' ''characters'')"
    proof -
      have "assign cols ?U old \<in> set (filter (matches cols ?wh) (store w1 ''characters''))"
        using rows olds by simp
      then show ?thesis using w1 by simp
    qed
    then have "shape_ok cols (assign cols ?U old)"
      using db_ok_shape [OF ok cols] by (simp add: table_names_def)
    then have shape: "map fst old = column_names cols"
      by (simp add: shape_ok_def keys_assign)
    have set: "col (assign cols ?U old) k = affinity (ctype_of characters_columns k) v"
      if kv: "get_prop ?U k = Some v" for k v
    proof -
      have "k \<in> fst ` set ?U" using kv by (rule get_prop_key)
      with keys shape have "k \<in> set (map fst old)" by auto
      with kv show ?thesis unfolding cc [symmetric] by (rule col_assign_set)
    qed
    have unset: "col (assign cols ?U old) k = col old k" if "get_prop ?U k = None" for k
      using that by (rule col_assign_other)
    from fresh new set unset show ?thesis by (auto simp: kept_def)
  qed
  with fresh show ?thesis by blast
qed

lemma example_update:
  "updateCharacterState (of_ascii ''c1'')
     [(''affection'', Str (of_ascii ''60'')), (''name'', Num 5)] 2000 cached_world
   = (Inr 1, world_of [put ''updated_at'' (Num 2000)
                         (character_row (of_ascii ''c1'') (of_ascii ''5.0'') 60
                            (of_ascii ''neutral'') 1000)])"
  by (simp add: updateCharacterState_def stringify_field_def db_update_def sql_update_def
      assign_def map_delete_def cached_world_def text_simps
      read_simps schema_simps ok_simps example_simps fun_eq_iff)

lemma example_cached_read:
  "fst (getCharacterState (StateManager_options None None None) (of_ascii ''c1'') 2001 cached_world)
   = Inr (Some alice)"
  by (simp add: getCharacterState_def StateManager_options_def cached_world_def example_simps)

text \<open>
  The character of the tests, read and cached at 1990 with affection 50, updated at 2000
  with the text \<open>60\<close> as affection and the number 5 as name, and read again at 2001, well
  inside the TTL of 60000 ms: the read before the update answers from the cache, the read
  after it returns the affection 60 and the name \<open>5.0\<close>.
\<close>

theorem read_after_update_witness:
  "fst (getCharacterState (StateManager_options None None None) (of_ascii ''c1'') 2001 cached_world)
     = Inr (Some alice)
   \<and> col alice ''affection'' = Num 50
   \<and> col alice ''name'' = Str (of_ascii ''Alice'')
   \<and> updateCharacterState (of_ascii ''c1'')
       [(''affection'', Str (of_ascii ''60'')), (''name'', Num 5)] 2000 cached_world
     = (Inr 1, world_of [put ''updated_at'' (Num 2000)
                         (character_row (of_ascii ''c1'') (of_ascii ''5.0'') 60
                            (of_ascii ''neutral'') 1000)])
   \<and> (\<exists>new. fst (getCharacterState (StateManager_options None None None) (of_ascii ''c1'') 2001
                  (world_of [put ''updated_at'' (Num 2000)
                         (character_row (of_ascii ''c1'') (of_ascii ''5.0'') 60
                            (of_ascii ''neutral'') 1000)]))
                = Inr (Some new)
              \<and> col new ''affection'' = Num 60
              \<and> col new ''name'' = Str (of_ascii ''5.0'')
              \<and> col new ''updated_at'' = Num 2000
              \<and> col new ''emotion'' = Str (of_ascii ''neutral''))"
proof -
  let ?w1 = "world_of [put ''updated_at'' (Num 2000)
                         (character_row (of_ascii ''c1'') (of_ascii ''5.0'') 60
                            (of_ascii ''neutral'') 1000)]"
  let ?U = "put ''updated_at'' (Num 2000)
              (stringify_field ''metadata'' (stringify_field ''personality''
                [(''affection'', Str (of_ascii ''60'')), (''name'', Num 5)]))"
  have old: "db_get ''characters'' [(''id'', KStr (of_ascii ''c1''))] cached_world = Inr (Some alice)"
    by (simp add: cached_world_def read_simps schema_simps example_simps)
  have noid: "''id'' \<notin> set (map fst [(''affection'', Str (of_ascii ''60'')), (''name'', Num 5)])"
    by simp
  from read_after_update [OF example_update,
      of "StateManager_options None None None" 2001] old noid
  obtain new where new:
    "fst (getCharacterState (StateManager_options None None None) (of_ascii ''c1'') 2001 ?w1)
       = Inr (Some new)"
    and set: "\<forall>k v. get_prop ?U k = Some v \<and> exact (ctype_of characters_columns k) v
               \<longrightarrow> col new k = affinity (ctype_of characters_columns k) v"
    and unset: "\<forall>k. get_prop ?U k = None \<longrightarrow> col new k = col alice k"
    by blast
  from set [rule_format, of "''affection''" "Str (of_ascii ''60'')"]
  have a: "col new ''affection'' = Num 60"
    by (simp add: stringify_field_def get_prop_def exact_def affinity_def schema_simps
        example_simps text_simps)
  from set [rule_format, of "''name''" "Num 5"]
  have n: "col new ''name'' = Str (of_ascii ''5.0'')"
    by (simp add: stringify_field_def get_prop_def exact_def affinity_def schema_simps
        example_simps text_simps)
  from set [rule_format, of "''updated_at''" "Num 2000"]
  have u: "col new ''updated_at'' = Num 2000"
    by (simp add: stringify_field_def get_prop_def exact_def affinity_def schema_simps)
  from unset [rule_format, of "''emotion''"]
  have e: "col new ''emotion'' = Str (of_ascii ''neutral'')"
    by (simp add: stringify_field_def get_prop_def col_def example_simps)
  from new a n u e have "\<exists>new.
      fst (getCharacterState (StateManager_options None None None) (of_ascii ''c1'') 2001 ?w1)
        = Inr (Some new)
      \<and> col new ''affection'' = Num 60 \<and> col new ''name'' = Str (of_ascii ''5.0'')
      \<and> col new ''updated_at'' = Num 2000 \<and> col new ''emotion'' = Str (of_ascii ''neutral'')"
    by blast
  moreover have "col alice ''affection'' = Num 50" "col alice ''name'' = Str (of_ascii ''Alice'')"
    by (simp_all add: col_def get_prop_def example_simps)
  ultimately show ?thesis
    using example_update example_cached_read by simp
qed

subsection \<open>Restore is atomic\<close>

text \<open>
  C4. For every snapshot id and every state, \<open>restoreSnapshot\<close> ends in one of two ways:
  it throws, and the store (so each of the five tables) is what it was before the call;
  or it returns, the snapshot was found and parsed, the whole body of the transaction (the
  five deletions and the five re-insertions) ran to its end without an error, and the store
  is the one that body left.
\<close>

theorem restoreSnapshot_atomic:
  assumes "restoreSnapshot sid now w = (r, w')"
  shows "(\<exists>e. r = Inl e \<and> store w' = store w)
       \<or> (\<exists>snapshot state w2. r = Inr ()
             \<and> db_get ''state_snapshots'' [(''id'', KStr sid)] w = Inr (Some snapshot)
             \<and> json_parse (col snapshot ''state_data'') = Inr state
             \<and> restore_body state now w = (Inr (), w2)
             \<and> store w' = store w2)"
proof (cases "db_get ''state_snapshots'' [(''id'', KStr sid)] w")
  case (Inl e)
  with assms show ?thesis by (auto simp: restoreSnapshot_def)
next
  case (Inr found)
  show ?thesis
  proof (cases found)
    case None
    with Inr assms show ?thesis by (auto simp: restoreSnapshot_def)
  next
    case (Some snapshot)
    show ?thesis
    proof (cases "json_parse (col snapshot ''state_data'')")
      case (Inl e)
      with Some Inr assms show ?thesis by (auto simp: restoreSnapshot_def)
    next
      case parsed: (Inr state)
      obtain rb w2 where body: "restore_body state now w = (rb, w2)"
        by (cases "restore_body state now w")
      show ?thesis
      proof (cases rb)
        case (Inl e)
        with body parsed Some Inr assms show ?thesis
          by (auto simp: restoreSnapshot_def transaction_def)
      next
        case ok: (Inr u)
        with body parsed Some Inr assms show ?thesis
          by (auto simp: restoreSnapshot_def transaction_def clearCache_def)
      qed
    qed
  qed
qed

lemmas restore_simps = restoreSnapshot_def transaction_def restore_body_def bind_def
  restore_table_def js_field_def db_raw_delete_all_def sql_delete_rows_def cascade_def
  clearCache_def snapshot_world_def snapshot_row_def dump_of_def

lemma example_missing:
  "restoreSnapshot (of_ascii ''none'') 3000 broken_world
   = (Inl (SnapshotNotFound (of_ascii ''none'')), broken_world)"
  by (simp add: restore_simps broken_world_def read_simps schema_simps example_simps)

lemma example_broken:
  "restoreSnapshot (of_ascii ''s1'') 3000 broken_world
   = (Inl (ConstraintFailed ''characters''), broken_world)"
  by (simp add: restore_simps broken_world_def write_simps read_simps schema_simps ok_simps
      example_simps)

text \<open>
  Two failing restores on a store with one character and one snapshot, whose only row
  breaks the range check of the affection: the restore of an unknown id throws
  \<open>Snapshot not found\<close>; the restore of the snapshot throws the constraint error after the
  five deletions have run, and the character is still there.
\<close>

theorem restoreSnapshot_atomic_witness:
  "restoreSnapshot (of_ascii ''none'') 3000 broken_world
     = (Inl (SnapshotNotFound (of_ascii ''none'')), broken_world)
   \<and> restoreSnapshot (of_ascii ''s1'') 3000 broken_world
     = (Inl (ConstraintFailed ''characters''), broken_world)
   \<and> store (snd (restoreSnapshot (of_ascii ''s1'') 3000 broken_world)) = store broken_world"
  using restoreSnapshot_atomic [OF example_broken] example_missing example_broken
  by simp

subsection \<open>The cells of a row\<close>








subsection \<open>Snapshots\<close>





lemma jsonify_row: "jsonify (Obj r) = Obj (through_json r)"
  by (simp add: through_json_def)














subsection \<open>A round trip on states of all five tables\<close>








end
